theory Spec2Isabelle
  imports Complex_Main "HOL-Library.Word"
begin

section \<open>Object model\<close>

text \<open>
  The PDF object variants the code dispatches on with Go type switches. A Go \<open>Dict\<close> is a
  \<open>map[string]Object\<close>; it is kept as an association list with the entries in the order a
  \<open>range\<close> loop visits them. The nil interface value (PDF null) is \<open>Null\<close>. Go byte slices
  built from text are \<open>string\<close>s (lists of 8-bit characters).
\<close>

record StreamData =
  StreamOffset :: int
  StreamLength :: "int option"
  StreamLengthObjNr :: "int option"
  Raw :: string
  Content :: string
  IsPageContent :: bool

datatype Object =
    Null
  | Boolean bool
  | Integer int
  | Float "64 word"
  | Name string
  | StringLiteral string
  | HexLiteral string
  | Array "Object list"
  | Dict "(string \<times> Object) list"
  | StreamDict "(string \<times> Object) list" "(string \<times> (string \<times> Object) list option) list" StreamData
  | IndirectRef int int

type_synonym Dict = "(string \<times> Object) list"

text \<open>A \<open>StreamDict\<close> value: its dict, its filter pipeline and its data fields.\<close>

type_synonym StreamDictValue = "Dict \<times> (string \<times> Dict option) list \<times> StreamData"

datatype error = Err string | Panic string

section \<open>Decimal formatting (the \<open>%d\<close> verb of fmt.Sprintf)\<close>

fun dec_nat :: "nat \<Rightarrow> string" where
  "dec_nat n = (if n < 10 then [''0123456789'' ! n]
                else dec_nat (n div 10) @ [''0123456789'' ! (n mod 10)])"

declare dec_nat.simps [simp del]

definition fmt_d :: "int \<Rightarrow> string" where
  "fmt_d i = (if i < 0 then CHR ''-'' # dec_nat (nat (- i)) else dec_nat (nat i))"

section \<open>Object streams\<close>

record XRefTableEntry =
  Free :: bool
  Offset :: "int option"
  Generation :: "int option"
  Object :: Object
  Compressed :: bool
  ObjectStream :: "int option"
  ObjectStreamInd :: "int option"

text \<open>
  \<open>ObjectStreamDict\<close> embeds \<open>StreamDict\<close>: the stream's dict, filter pipeline and data fields,
  followed by the fields of the object stream itself.
\<close>

record ObjectStreamDict = StreamData +
  Entries :: Dict
  FilterPipeline :: "(string \<times> Dict option) list"
  Prolog :: string
  ObjCount :: int
  FirstObjOffset :: int
  ObjArray :: "Object list option"

text \<open>
  \<open>AddObject\<close> (method of \<open>*ObjectStreamDict\<close>). The receiver is mutated in place, so the
  model returns the receiver as it is left behind together with the error, if any. The
  \<open>PDFString\<close> methods of the object variants are not part of the source files modelled here and are
  taken as the parameter \<open>pdfString\<close>. A nil \<open>entry\<close> is \<open>None\<close>: dereferencing it panics.
\<close>

definition appendObject :: "ObjectStreamDict \<Rightarrow> string \<Rightarrow> error option \<times> ObjectStreamDict" where
  "appendObject os pdfStr =
     (None, os\<lparr>Content := Content os @ pdfStr, ObjCount := ObjCount os + 1\<rparr>)"

definition AddObject ::
  "(Object \<Rightarrow> string) \<Rightarrow> ObjectStreamDict \<Rightarrow> int \<Rightarrow> XRefTableEntry option
     \<Rightarrow> error option \<times> ObjectStreamDict" where
  "AddObject pdfString oStreamDict objNumber entry =
     (let offset = int (length (Content oStreamDict));
          s = (if ObjCount oStreamDict > 0 then '' '' else []);
          s = s @ fmt_d objNumber @ '' '' @ fmt_d offset;
          os = oStreamDict\<lparr>Prolog := Prolog oStreamDict @ s\<rparr>
      in case entry of
           None \<Rightarrow> (Some (Panic ''nil pointer dereference''), os)
         | Some e \<Rightarrow>
            (case Object e of
               Dict d \<Rightarrow> appendObject os (pdfString (Dict d))
             | Array a \<Rightarrow> appendObject os (pdfString (Array a))
             | Integer i \<Rightarrow> appendObject os (pdfString (Integer i))
             | Float f \<Rightarrow> appendObject os (pdfString (Float f))
             | StringLiteral l \<Rightarrow> appendObject os (pdfString (StringLiteral l))
             | HexLiteral h \<Rightarrow> appendObject os (pdfString (HexLiteral h))
             | Boolean b \<Rightarrow> appendObject os (pdfString (Boolean b))
             | Name n \<Rightarrow> appendObject os (pdfString (Name n))
             | _ \<Rightarrow>
                (Some (Err (''AddObject: undefined PDF object #'' @ fmt_d objNumber @ [CHR 0x0A])),
                 os)))"

text \<open>The variants \<open>AddObject\<close> accepts.\<close>

fun packable :: "Object \<Rightarrow> bool" where
  "packable (Dict d) = True"
| "packable (Array a) = True"
| "packable (Integer i) = True"
| "packable (Float f) = True"
| "packable (StringLiteral l) = True"
| "packable (HexLiteral h) = True"
| "packable (Boolean b) = True"
| "packable (Name n) = True"
| "packable _ = False"

section \<open>The context\<close>

text \<open>
  Modelled from the spec: the \<open>Mode\<close> enumeration of the configuration, whose declaration is
  not part of the source files modelled here. The spec lists READ, OPTIMIZE, ENCRYPT, DECRYPT,
  ADDPERMISSIONS and CHANGEPASSWORDS.
\<close>

datatype CommandMode = READ | OPTIMIZE | ENCRYPT | DECRYPT | ADDPERMISSIONS | CHANGEPASSWORDS

record Configuration =
  Mode :: CommandMode
  WriteObjectStream :: bool
  WriteXRefStream :: bool
  EncryptUsingAES :: bool
  EncryptUsing128BitKey :: bool
  UserAccessPermissions :: int
  UserPW :: string
  UserPWNew :: "string option"
  OwnerPW :: string
  OwnerPWNew :: "string option"

text \<open>The fields of \<open>Enc\<close> that the write path assigns.\<close>

record Enc =
  Enc_O :: string
  Enc_U :: string
  Enc_ID :: string
  Enc_P :: int

text \<open>
  \<open>XRefTable\<close>: pointers that may be nil are options (\<open>Info\<close>, \<open>ID\<close>, \<open>Encrypt\<close>, \<open>E\<close>, \<open>EncKey\<close>,
  the hint table offsets). \<open>Table\<close> is a \<open>map[int]*XRefTableEntry\<close>; \<open>LinearizationObjs\<close> is an
  \<open>IntSet\<close> (\<open>map[int]bool\<close> holding \<open>true\<close> for its members).
\<close>

record XRefTable =
  Table :: "int \<rightharpoonup> XRefTableEntry"
  Size :: int
  PageCount :: int
  Root :: "(int \<times> int) option"
  Info :: "(int \<times> int) option"
  ID :: "Object list option"
  Encrypt :: "(int \<times> int) option"
  E :: "Enc option"
  EncKey :: "string option"
  OffsetPrimaryHintTable :: "int option"
  OffsetOverflowHintTable :: "int option"
  LinearizationObjs :: "int set"
  Optimized :: bool

record ReadContext =
  UsingXRefStreams :: bool
  Linearized :: bool
  ObjectStreams :: "int set"
  XRefStreams :: "int set"

record FontObject =
  ResourceNames :: "string list"
  Prefix :: string
  FontName :: string
  FontDict :: Dict

record ImageObject =
  Image_ResourceNames :: "string list"
  ImageDict :: StreamDictValue

record OptimizationContext =
  PageFonts :: "int set option list"
  FontObjects :: "int \<rightharpoonup> FontObject"
  Fonts :: "string \<rightharpoonup> int list"
  DuplicateFonts :: "int \<rightharpoonup> Dict"
  DuplicateFontObjs :: "int set"
  PageImages :: "int set option list"
  ImageObjects :: "int \<rightharpoonup> ImageObject"
  DuplicateImages :: "int \<rightharpoonup> StreamDictValue"
  DuplicateImageObjs :: "int set"
  DuplicateInfoObjects :: "int set"

record WriteContext =
  Write_Offset :: int
  Write_Table :: "int \<rightharpoonup> int"
  ExtractPageNr :: int

text \<open>
  \<open>Context\<close> embeds \<open>*Configuration\<close> and \<open>*XRefTable\<close> and points to the read, optimize and
  write contexts; \<open>Read\<close> and \<open>Optimize\<close> may be nil.
\<close>

record Context =
  Configuration :: Configuration
  XRefTable :: XRefTable
  Read :: "ReadContext option"
  Optimize :: "OptimizationContext option"
  Write :: WriteContext

section \<open>File ID\<close>

text \<open>
  \<open>ensureFileID\<close>. The digest computation \<open>fileID\<close> is an external collaborator and a
  parameter here. \<open>arr := *ctx.ID\<close> copies the slice header only, so \<open>arr[1] = fid\<close> writes
  into the array \<open>ctx.ID\<close> points to.
\<close>

definition ensureFileID ::
  "(Context \<Rightarrow> error + Object) \<Rightarrow> Context \<Rightarrow> error option \<times> Context" where
  "ensureFileID fileID ctx =
     (case fileID ctx of
        Inl err \<Rightarrow> (Some err, ctx)
      | Inr fid \<Rightarrow>
         (case ID (XRefTable ctx) of
            None \<Rightarrow> (None, ctx\<lparr>XRefTable := (XRefTable ctx)\<lparr>ID := Some [fid, fid]\<rparr>\<rparr>)
          | Some arr \<Rightarrow>
             if length arr \<noteq> 2
             then (Some (Err ''ID must be an array with 2 elements''), ctx)
             else (None, ctx\<lparr>XRefTable := (XRefTable ctx)\<lparr>ID := Some (arr[1 := fid])\<rparr>\<rparr>)))"

section \<open>Collaborators\<close>

text \<open>
  Modelled from the spec: \<open>Update\<close> of a \<open>Dict\<close>, a method of the object model that is not
  part of the source files modelled here. The dict is a Go map, so updating a key replaces its value or
  adds the entry.
\<close>

fun dictUpdate :: "string \<Rightarrow> Object \<Rightarrow> Dict \<Rightarrow> Dict" where
  "dictUpdate key v [] = [(key, v)]"
| "dictUpdate key v ((k, w) # d) = (if k = key then (key, v) # d else (k, w) # dictUpdate key v d)"

text \<open>\<open>hex.EncodeToString\<close> of the Go library: two lower-case hex digits per byte.\<close>

definition hexEncodeToString :: "string \<Rightarrow> string" where
  "hexEncodeToString bs =
     concat (map (\<lambda>c. [''0123456789abcdef'' ! (of_char c div 16),
                        ''0123456789abcdef'' ! (of_char c mod 16)]) bs)"

text \<open>
  The functions that the code below calls and that are not part of the source files modelled here,
  each with the results its call site receives (a Go \<open>(value, error)\<close> pair is a pair with an
  \<open>error option\<close>, a nil pointer is \<open>None\<close>). \<open>o\<close> and \<open>u\<close> are \<open>compute_o\<close> and \<open>compute_u\<close>. The
  encryption primitives and \<open>Pages\<close> read the context; \<open>InsertAndUseRecycled\<close>,
  \<open>EnsureValidFreeList\<close>, \<open>DereferenceDict\<close> and \<open>Dereference\<close> are methods of \<open>*XRefTable\<close>, the
  first two returning the table they leave. \<open>equalFontDicts\<close> and \<open>equalStreamDicts\<close> are the
  structural comparisons, which read the table.
\<close>

record Collaborators =
  newEncryptDict :: "bool \<Rightarrow> bool \<Rightarrow> int \<Rightarrow> Dict"
  supportedEncryption :: "Context \<Rightarrow> Dict \<Rightarrow> Enc option \<times> error option"
  IDFirstElement :: "XRefTable \<Rightarrow> string \<times> error option"
  compute_o :: "Context \<Rightarrow> string \<times> error option"
  compute_u :: "Context \<Rightarrow> string \<times> string option \<times> error option"
  NewXRefTableEntryGen0 :: "Object \<Rightarrow> XRefTableEntry"
  InsertAndUseRecycled :: "XRefTable \<Rightarrow> XRefTableEntry \<Rightarrow> (int \<times> error option) \<times> XRefTable"
  EnsureValidFreeList :: "XRefTable \<Rightarrow> error option \<times> XRefTable"
  Pages :: "Context \<Rightarrow> (int \<times> int) option \<times> error option"
  DereferenceDict :: "XRefTable \<Rightarrow> Object \<Rightarrow> Dict option \<times> error option"
  Dereference :: "XRefTable \<Rightarrow> Object \<Rightarrow> Object \<times> error option"
  equalFontDicts :: "Dict \<Rightarrow> Dict \<Rightarrow> XRefTable \<Rightarrow> bool \<times> error option"
  equalStreamDicts :: "StreamDictValue \<Rightarrow> StreamDictValue \<Rightarrow> XRefTable \<Rightarrow> bool \<times> error option"

definition nilDeref :: error where
  "nilDeref = Panic ''invalid memory address or nil pointer dereference''"

section \<open>Encryption\<close>

text \<open>
  Every function below takes the context and returns it as the call leaves it, also when it
  returns an error: the caller's \<open>ctx\<close> has been mutated up to the point of the return.
\<close>

definition setE :: "Context \<Rightarrow> Enc option \<Rightarrow> Context" where
  "setE ctx e = ctx\<lparr>XRefTable := (XRefTable ctx)\<lparr>E := e\<rparr>\<rparr>"

definition setupEncryption :: "Collaborators \<Rightarrow> Context \<Rightarrow> error option \<times> Context" where
  "setupEncryption ext ctx =
     (let conf = Configuration ctx;
          dict = newEncryptDict ext (EncryptUsingAES conf) (EncryptUsing128BitKey conf)
                   (UserAccessPermissions conf);
          (e, err) = supportedEncryption ext ctx dict;
          ctx = setE ctx e
      in if err \<noteq> None then (err, ctx)
         else if ID (XRefTable ctx) = None then (Some (Err ''encrypt: missing ID''), ctx)
         else
           let (id, err) = IDFirstElement ext (XRefTable ctx)
           in if err \<noteq> None then (err, ctx)
              else case E (XRefTable ctx) of
                None \<Rightarrow> (Some nilDeref, ctx)
              | Some enc \<Rightarrow>
                 let ctx = setE ctx (Some (enc\<lparr>Enc_ID := id\<rparr>));
                     (ov, err) = compute_o ext ctx;
                     enc = enc\<lparr>Enc_ID := id, Enc_O := ov\<rparr>;
                     ctx = setE ctx (Some enc)
                 in if err \<noteq> None then (err, ctx)
                    else
                      let (uv, key, err) = compute_u ext ctx;
                          enc = enc\<lparr>Enc_U := uv\<rparr>;
                          ctx = ctx\<lparr>XRefTable := (XRefTable ctx)\<lparr>E := Some enc, EncKey := key\<rparr>\<rparr>
                      in if err \<noteq> None then (err, ctx)
                         else
                           let dict = dictUpdate ''U'' (HexLiteral (hexEncodeToString (Enc_U enc))) dict;
                               dict = dictUpdate ''O'' (HexLiteral (hexEncodeToString (Enc_O enc))) dict;
                               xRefTableEntry = NewXRefTableEntryGen0 ext (Dict dict);
                               ((objNumber, err), xt) =
                                  InsertAndUseRecycled ext (XRefTable ctx) xRefTableEntry;
                               ctx = ctx\<lparr>XRefTable := xt\<rparr>
                           in if err \<noteq> None then (err, ctx)
                              else (None, ctx\<lparr>XRefTable := (XRefTable ctx)\<lparr>Encrypt := Some (objNumber, 0)\<rparr>\<rparr>))"


text \<open>
  Modelled from the spec: \<open>EncryptDict\<close>, a method of the context that is not part of the
  source files modelled here ("locate existing Encrypt dict"): the dict object that \<open>ctx.Encrypt\<close> refers
  to in the table. It yields the object number; \<open>updateDictAt\<close> is \<open>d.Update\<close> on that dict,
  which lives in the table.
\<close>

definition EncryptDict :: "XRefTable \<Rightarrow> error + int" where
  "EncryptDict xt =
     (case Encrypt xt of
        None \<Rightarrow> Inl (Err ''EncryptDict: missing encrypt dict'')
      | Some (objNr, genNr) \<Rightarrow>
         (case Table xt objNr of
            None \<Rightarrow> Inl (Err ''EncryptDict: missing encrypt dict'')
          | Some e \<Rightarrow>
             (case Object e of
                Dict d \<Rightarrow> Inr objNr
              | _ \<Rightarrow> Inl (Err ''EncryptDict: missing encrypt dict''))))"

definition updateDictAt :: "int \<Rightarrow> string \<Rightarrow> Object \<Rightarrow> Context \<Rightarrow> Context" where
  "updateDictAt objNr key v ctx =
     (case Table (XRefTable ctx) objNr of
        Some e \<Rightarrow>
          (case Object e of
             Dict d \<Rightarrow>
               ctx\<lparr>XRefTable := (XRefTable ctx)
                     \<lparr>Table := (Table (XRefTable ctx))(objNr \<mapsto> e\<lparr>Object := Dict (dictUpdate key v d)\<rparr>)\<rparr>\<rparr>
           | _ \<Rightarrow> ctx)
      | None \<Rightarrow> ctx)"

text \<open>\<open>updateEncryption\<close>, in the three parts \<open>updatePasswords\<close>, \<open>updateOU\<close> and the head.\<close>

definition updatePasswords :: "Context \<Rightarrow> Context" where
  "updatePasswords ctx =
     (let ctx = (case UserPWNew (Configuration ctx) of
                   Some pw \<Rightarrow> ctx\<lparr>Configuration := (Configuration ctx)\<lparr>UserPW := pw\<rparr>\<rparr>
                 | None \<Rightarrow> ctx)
      in case OwnerPWNew (Configuration ctx) of
           Some pw \<Rightarrow> ctx\<lparr>Configuration := (Configuration ctx)\<lparr>OwnerPW := pw\<rparr>\<rparr>
         | None \<Rightarrow> ctx)"

definition updateOU :: "Collaborators \<Rightarrow> int \<Rightarrow> Context \<Rightarrow> error option \<times> Context" where
  "updateOU ext d ctx =
     (case E (XRefTable ctx) of
        None \<Rightarrow> (Some nilDeref, ctx)
      | Some enc \<Rightarrow>
         let (ov, err) = compute_o ext ctx;
             enc = enc\<lparr>Enc_O := ov\<rparr>;
             ctx = setE ctx (Some enc)
         in if err \<noteq> None then (err, ctx)
            else
              let ctx = updateDictAt d ''O'' (HexLiteral (hexEncodeToString (Enc_O enc))) ctx;
                  (uv, key, err) = compute_u ext ctx;
                  enc = enc\<lparr>Enc_U := uv\<rparr>;
                  ctx = ctx\<lparr>XRefTable := (XRefTable ctx)\<lparr>E := Some enc, EncKey := key\<rparr>\<rparr>
              in if err \<noteq> None then (err, ctx)
                 else (None, updateDictAt d ''U'' (HexLiteral (hexEncodeToString (Enc_U enc))) ctx))"

definition updateEncryption :: "Collaborators \<Rightarrow> Context \<Rightarrow> error option \<times> Context" where
  "updateEncryption ext ctx =
     (case EncryptDict (XRefTable ctx) of
        Inl err \<Rightarrow> (Some err, ctx)
      | Inr d \<Rightarrow>
         if Mode (Configuration ctx) = ADDPERMISSIONS
         then (case E (XRefTable ctx) of
                 None \<Rightarrow> (Some nilDeref, ctx)
               | Some enc \<Rightarrow>
                  let enc = enc\<lparr>Enc_P := UserAccessPermissions (Configuration ctx)\<rparr>;
                      ctx = setE ctx (Some enc);
                      ctx = updateDictAt d ''P'' (Integer (Enc_P enc)) ctx
                  in updateOU ext d (updatePasswords ctx))
         else updateOU ext d (updatePasswords ctx))"

definition handleEncryption :: "Collaborators \<Rightarrow> Context \<Rightarrow> error option \<times> Context" where
  "handleEncryption ext ctx =
     (let (err, ctx) =
            (if Mode (Configuration ctx) = ENCRYPT \<or> Mode (Configuration ctx) = DECRYPT
             then (if Mode (Configuration ctx) = DECRYPT
                   then (None, ctx\<lparr>XRefTable := (XRefTable ctx)\<lparr>EncKey := None\<rparr>\<rparr>)
                   else setupEncryption ext ctx)
             else if UserPWNew (Configuration ctx) \<noteq> None \<or> OwnerPWNew (Configuration ctx) \<noteq> None
                     \<or> Mode (Configuration ctx) = ADDPERMISSIONS
             then updateEncryption ext ctx
             else (None, ctx))
      in if err \<noteq> None then (err, ctx)
         else if Encrypt (XRefTable ctx) \<noteq> None \<and> EncKey (XRefTable ctx) \<noteq> None
         then (case Read ctx of
                 None \<Rightarrow> (Some nilDeref, ctx)
               | Some r \<Rightarrow>
                  if \<not> UsingXRefStreams r
                  then (None, ctx\<lparr>Configuration := (Configuration ctx)
                                 \<lparr>WriteObjectStream := False, WriteXRefStream := False\<rparr>\<rparr>)
                  else (None, ctx))
         else (None, ctx))"

text \<open>The two output flags, and the condition under which \<open>handleEncryption\<close> clears them.\<close>

definition outputFlags :: "Context \<Rightarrow> bool \<times> bool" where
  "outputFlags ctx = (WriteObjectStream (Configuration ctx), WriteXRefStream (Configuration ctx))"

definition encryptedClassicalInput :: "Context \<Rightarrow> bool" where
  "encryptedClassicalInput ctx =
     (Encrypt (XRefTable ctx) \<noteq> None \<and> EncKey (XRefTable ctx) \<noteq> None
      \<and> (case Read ctx of None \<Rightarrow> False | Some r \<Rightarrow> \<not> UsingXRefStreams r))"

section \<open>Cross-reference streams\<close>

unbundle bit_operations_syntax

text \<open>
  The closure computing \<open>i2\<close> in \<open>writeXRefStream\<close>, as a loop on \<open>(i, byteCount)\<close>, and the
  three parts of \<open>int64ToBuf\<close>: the loop collecting the low bytes first (with its counter
  \<open>j\<close>), the loop swapping the byte order in place, and the padding. The values are Go
  \<open>int64\<close>s that only ever get shifted right, so no operation wraps and \<open>int\<close> holds them;
  \<open>byte(k&0xff)\<close> is an \<open>8 word\<close>.
\<close>

function i2_byteCount :: "int \<Rightarrow> int \<Rightarrow> int" where
  "i2_byteCount i n = (if i > 0 then i2_byteCount (drop_bit 8 i) (n + 1) else n)"
  by pat_completeness auto
termination
  by (relation "measure (\<lambda>(i, n). nat i)") (auto simp add: drop_bit_eq_div)

declare i2_byteCount.simps [simp del]

function lowBytes :: "int \<Rightarrow> 8 word list \<Rightarrow> int \<Rightarrow> 8 word list \<times> int" where
  "lowBytes k b j = (if k > 0 then lowBytes (drop_bit 8 k) (b @ [word_of_int (k AND 0xff)]) (j + 1)
                     else (b, j))"
  by pat_completeness auto
termination
  by (relation "measure (\<lambda>(k, b, j). nat k)") (auto simp add: drop_bit_eq_div)

declare lowBytes.simps [simp del]

function swapBytes :: "int \<Rightarrow> int \<Rightarrow> 8 word list \<Rightarrow> 8 word list" where
  "swapBytes i j b = (if i < j
                      then swapBytes (i + 1) (j - 1) (b[nat i := b ! nat j, nat j := b ! nat i])
                      else b)"
  by pat_completeness auto
termination
  by (relation "measure (\<lambda>(i, j, b). nat (j - i))") auto

declare swapBytes.simps [simp del]

definition int64ToBuf :: "int \<Rightarrow> int \<Rightarrow> 8 word list" where
  "int64ToBuf i byteCount =
     (let (b, j) = lowBytes i [] 0;
          b = swapBytes 0 (int (length b) - 1) b
      in if j < byteCount then replicate (nat (byteCount - j)) 0 @ b else b)"

text \<open>The \<open>W\<close> array of \<open>writeXRefStream\<close>: the block from \<open>offset := ctx.Write.Offset\<close> to \<open>wArr\<close>.\<close>

definition xRefStreamW :: "Context \<Rightarrow> int \<times> int \<times> int" where
  "xRefStreamW ctx =
     (let offset = Write_Offset (Write ctx);
          i2Base = Size (XRefTable ctx);
          i2Base = (if offset > i2Base then offset else i2Base);
          i1 = 1;
          i2 = i2_byteCount i2Base 0;
          i3 = 2
      in (i1, i2, i3))"

text \<open>
  \<open>createXRefStream\<close>. \<open>tableKeys\<close> lists the keys of \<open>Table\<close> in the order the \<open>range\<close> loop
  happens to visit them; the keys collected are sorted afterwards. \<open>xRefStreamEntry\<close> is the
  body of the loop up to the three appends, for the key \<open>j = keys[i]\<close>.
\<close>

definition writableKeys :: "int list \<Rightarrow> Context \<Rightarrow> int list" where
  "writableKeys tableKeys ctx =
     sort (filter (\<lambda>i. case Table (XRefTable ctx) i of
                          None \<Rightarrow> False
                        | Some e \<Rightarrow> Free e \<or> Write_Table (Write ctx) i \<noteq> None) tableKeys)"

definition xRefStreamEntry ::
  "Context \<Rightarrow> int \<Rightarrow> int \<Rightarrow> int \<Rightarrow> nat \<Rightarrow> int \<Rightarrow> error + 8 word list" where
  "xRefStreamEntry ctx i1 i2 i3 i j =
     (case Table (XRefTable ctx) j of
        None \<Rightarrow> Inl nilDeref
      | Some entry \<Rightarrow>
         if Free entry
         then (case (Offset entry, Generation entry) of
                 (Some off, Some gen) \<Rightarrow>
                   Inr (int64ToBuf 0 i1 @ int64ToBuf off i2 @ int64ToBuf gen i3)
               | _ \<Rightarrow> Inl nilDeref)
         else if Compressed entry
         then (case (ObjectStream entry, ObjectStreamInd entry) of
                 (Some os, Some ind) \<Rightarrow>
                   Inr (int64ToBuf 2 i1 @ int64ToBuf os i2 @ int64ToBuf ind i3)
               | _ \<Rightarrow> Inl nilDeref)
         else (case Write_Table (Write ctx) j of
                 None \<Rightarrow> Inl (Err (''createXRefStream: missing write offset for obj #''
                                     @ fmt_d (int i) @ [CHR 0x0A]))
               | Some off \<Rightarrow>
                  (case Generation entry of
                     None \<Rightarrow> Inl nilDeref
                   | Some gen \<Rightarrow>
                      Inr (int64ToBuf 1 i1 @ int64ToBuf off i2 @ int64ToBuf gen i3))))"

function createXRefStream_loop ::
  "Context \<Rightarrow> int \<Rightarrow> int \<Rightarrow> int \<Rightarrow> int list \<Rightarrow> nat \<Rightarrow> 8 word list \<Rightarrow> Object list \<Rightarrow> int \<Rightarrow> int
     \<Rightarrow> error + (8 word list \<times> Object list \<times> int \<times> int)" where
  "createXRefStream_loop ctx i1 i2 i3 keys i buf arr start sz =
     (if i < length keys
      then (case xRefStreamEntry ctx i1 i2 i3 i (keys ! i) of
              Inl err \<Rightarrow> Inl err
            | Inr s \<Rightarrow>
               if i > 0 \<and> keys ! i - keys ! (i - 1) > 1
               then createXRefStream_loop ctx i1 i2 i3 keys (i + 1) (buf @ s)
                      (arr @ [Integer start, Integer sz]) (keys ! i) 1
               else createXRefStream_loop ctx i1 i2 i3 keys (i + 1) (buf @ s) arr start (sz + 1))
      else Inr (buf, arr, start, sz))"
  by pat_completeness auto
termination
  by (relation "measure (\<lambda>(ctx, i1, i2, i3, keys, i, buf, arr, start, sz). length keys - i)") auto

declare createXRefStream_loop.simps [simp del]

definition createXRefStream ::
  "int list \<Rightarrow> Context \<Rightarrow> int \<Rightarrow> int \<Rightarrow> int \<Rightarrow> error + (8 word list \<times> Object list)" where
  "createXRefStream tableKeys ctx i1 i2 i3 =
     (let keys = writableKeys tableKeys ctx
      in if keys = [] then Inl (Panic ''index out of range [0] with length 0'')
         else case createXRefStream_loop ctx i1 i2 i3 keys 0 [] [] (keys ! 0) 0 of
                Inl err \<Rightarrow> Inl err
              | Inr (buf, arr, start, sz) \<Rightarrow> Inr (buf, arr @ [Integer start, Integer sz]))"

text \<open>
  \<open>NewXRefStreamDict\<close>: the entries of the new stream dict. \<open>Insert\<close> of a \<open>Dict\<close> is not
  part of the source files modelled here; the keys inserted into the fresh dict are pairwise distinct,
  so each \<open>Insert\<close> adds its entry (\<open>dictUpdate\<close>).
\<close>

definition NewXRefStreamDict :: "Context \<Rightarrow> error + Dict" where
  "NewXRefStreamDict ctx =
     (case Root (XRefTable ctx) of
        None \<Rightarrow> Inl nilDeref
      | Some (rootNr, rootGen) \<Rightarrow>
         let d = dictUpdate ''Type'' (Name ''XRef'') [];
             d = dictUpdate ''Filter'' (Name ''FlateDecode'') d;
             d = dictUpdate ''Root'' (IndirectRef rootNr rootGen) d;
             d = (case Info (XRefTable ctx) of
                    Some (n, g) \<Rightarrow> dictUpdate ''Info'' (IndirectRef n g) d
                  | None \<Rightarrow> d);
             d = (case ID (XRefTable ctx) of
                    Some arr \<Rightarrow> dictUpdate ''ID'' (Array arr) d
                  | None \<Rightarrow> d);
             d = (case Encrypt (XRefTable ctx) of
                    Some (n, g) \<Rightarrow>
                      if EncKey (XRefTable ctx) \<noteq> None
                      then dictUpdate ''Encrypt'' (IndirectRef n g) d else d
                  | None \<Rightarrow> d)
         in Inr d)"

text \<open>
  \<open>writeXRefStream\<close>, up to the point where the stream is handed to \<open>encodeStream\<close> and
  \<open>writeStreamDictObject\<close>: the object number of the xref stream, its dict, its decoded
  content and the offset printed after \<open>startxref\<close>, with the context as it is then. The
  entry inserted into the table holds the dict as it is at the insertion; encoding and
  emission are external.
\<close>

record XRefStreamOutput =
  out_ctx :: Context
  out_objNumber :: int
  out_dict :: Dict
  out_content :: "8 word list"
  out_startxref :: int

definition writeXRefStream ::
  "Collaborators \<Rightarrow> int list \<Rightarrow> Context \<Rightarrow> error + XRefStreamOutput" where
  "writeXRefStream ext tableKeys ctx =
     (case NewXRefStreamDict ctx of
        Inl err \<Rightarrow> Inl err
      | Inr d \<Rightarrow>
         let xRefTableEntry = NewXRefTableEntryGen0 ext (StreamDict d [(''FlateDecode'', None)]
                                \<lparr>StreamOffset = 0, StreamLength = None, StreamLengthObjNr = None,
                                 Raw = [], Content = [], IsPageContent = False\<rparr>);
             ((objNumber, err), xt) = InsertAndUseRecycled ext (XRefTable ctx) xRefTableEntry
         in case err of
              Some e \<Rightarrow> Inl e
            | None \<Rightarrow>
               let (err, xt) = EnsureValidFreeList ext xt
               in case err of
                    Some e \<Rightarrow> Inl e
                  | None \<Rightarrow>
                     let ctx = ctx\<lparr>XRefTable := xt\<rparr>;
                         d = dictUpdate ''Size'' (Integer (Size (XRefTable ctx))) d;
                         offset = Write_Offset (Write ctx);
                         (i1, i2, i3) = xRefStreamW ctx;
                         wArr = [Integer i1, Integer i2, Integer i3];
                         d = dictUpdate ''W'' (Array wArr) d
                     in case createXRefStream tableKeys ctx i1 i2 i3 of
                          Inl e \<Rightarrow> Inl e
                        | Inr (content, indArr) \<Rightarrow>
                           Inr \<lparr>out_ctx = ctx, out_objNumber = objNumber,
                                out_dict = dictUpdate ''Index'' (Array indArr) d,
                                out_content = content, out_startxref = offset\<rparr>)"

text \<open>
  The formula of the specification for the second field width, in its words:
  \<open>ceil(log256(max(size, currentOffset)))\<close>.
\<close>

definition ceil_log256 :: "int \<Rightarrow> int" where
  "ceil_log256 m = \<lceil>log 256 (real_of_int m)\<rceil>"


definition spec_W :: "int \<Rightarrow> int \<Rightarrow> int \<times> int \<times> int" where
  "spec_W sz currentOffset = (1, ceil_log256 (max sz currentOffset), 2)"

text \<open>The number a byte sequence denotes, most significant byte first and least significant
  byte first.\<close>

definition be_value :: "8 word list \<Rightarrow> int" where
  "be_value bs = foldl (\<lambda>a w. a * 256 + uint w) 0 bs"


definition le_value :: "8 word list \<Rightarrow> int" where
  "le_value bs = foldr (\<lambda>w a. uint w + 256 * a) bs 0"

text \<open>
  The three fields of the xref stream entry for object \<open>j\<close>, as \<open>createXRefStream\<close> picks
  them: type 0 with the next free object number and the generation, type 2 with the object
  stream number and the index within it, type 1 with the write offset and the generation.
\<close>

definition xRefStreamFields :: "Context \<Rightarrow> int \<Rightarrow> (int \<times> int \<times> int) option" where
  "xRefStreamFields ctx j =
     (case Table (XRefTable ctx) j of
        None \<Rightarrow> None
      | Some entry \<Rightarrow>
         if Free entry
         then (case (Offset entry, Generation entry) of
                 (Some off, Some gen) \<Rightarrow> Some (0, off, gen) | _ \<Rightarrow> None)
         else if Compressed entry
         then (case (ObjectStream entry, ObjectStreamInd entry) of
                 (Some os, Some ind) \<Rightarrow> Some (2, os, ind) | _ \<Rightarrow> None)
         else (case (Write_Table (Write ctx) j, Generation entry) of
                 (Some off, Some gen) \<Rightarrow> Some (1, off, gen) | _ \<Rightarrow> None))"

text \<open>\<open>i2Base\<close> of \<open>writeXRefStream\<close>: the larger of the table size and the write offset.\<close>

definition i2Base :: "Context \<Rightarrow> int" where
  "i2Base ctx = max (Size (XRefTable ctx)) (Write_Offset (Write ctx))"

section \<open>Optimization: page count\<close>

text \<open>
  Modelled from the spec: \<open>IntEntry\<close> of a \<open>Dict\<close>, a method of the object model that is not
  part of the source files modelled here ("Read \<open>Count\<close> from the page-tree root"): the integer stored
  under the key, nil when the key is absent or holds no integer.
\<close>

definition IntEntry :: "Dict \<Rightarrow> string \<Rightarrow> int option" where
  "IntEntry d key = (case map_of d key of Some (Integer i) \<Rightarrow> Some i | _ \<Rightarrow> None)"

text \<open>
  \<open>optimizeFontAndImages\<close>. The page-tree walk and the closure of the redundant objects
  (\<open>parsePagesDict\<close> followed by \<open>calcRedundantObjects\<close>) come after the checks on the page
  count and are the parameter \<open>walk\<close>, which gets the context and the page-tree root dict.
  \<open>prepareAndWalk\<close> is the function from "Prepare optimization environment" on:
  \<open>make([]IntSet, n)\<close> panics for a negative \<open>n\<close> and yields \<open>n\<close> nil sets otherwise.
\<close>

definition prepareAndWalk ::
  "(Context \<Rightarrow> Dict \<Rightarrow> error option \<times> Context) \<Rightarrow> Dict \<Rightarrow> Context \<Rightarrow> error option \<times> Context" where
  "prepareAndWalk walk pageTreeRootDict ctx =
     (case Optimize ctx of
        None \<Rightarrow> (Some nilDeref, ctx)
      | Some oc \<Rightarrow>
         if PageCount (XRefTable ctx) < 0
         then (Some (Panic ''makeslice: len out of range''), ctx)
         else walk (ctx\<lparr>Optimize := Some (oc
                      \<lparr>PageFonts := replicate (nat (PageCount (XRefTable ctx))) None,
                       PageImages := replicate (nat (PageCount (XRefTable ctx))) None\<rparr>)\<rparr>)
                pageTreeRootDict)"

definition optimizeFontAndImages ::
  "Collaborators \<Rightarrow> (Context \<Rightarrow> Dict \<Rightarrow> error option \<times> Context) \<Rightarrow> Context
     \<Rightarrow> error option \<times> Context" where
  "optimizeFontAndImages ext walk ctx =
     (case Pages ext ctx of
        (_, Some err) \<Rightarrow> (Some err, ctx)
      | (None, None) \<Rightarrow> (Some nilDeref, ctx)
      | (Some (objNr, genNr), None) \<Rightarrow>
         (case DereferenceDict ext (XRefTable ctx) (IndirectRef objNr genNr) of
            (_, Some err) \<Rightarrow> (Some err, ctx)
          | (None, None) \<Rightarrow> (Some nilDeref, ctx)
          | (Some pageTreeRootDict, None) \<Rightarrow>
             (case IntEntry pageTreeRootDict ''Count'' of
                None \<Rightarrow>
                  (Some (Err (''optimizeFontAndImagess: missing '' @ [CHR 0x22] @ ''Count''
                              @ [CHR 0x22] @ '' in page root dict'')), ctx)
              | Some pageCount \<Rightarrow>
                 if PageCount (XRefTable ctx) > 0 \<and> PageCount (XRefTable ctx) \<noteq> pageCount
                 then (Some (Err ''optimizeFontAndImagess: unexpected page root dict pageCount discrepancy''),
                       ctx)
                 else
                   let ctx = (if PageCount (XRefTable ctx) = 0
                              then ctx\<lparr>XRefTable := (XRefTable ctx)\<lparr>PageCount := pageCount\<rparr>\<rparr>
                              else ctx)
                   in prepareAndWalk walk pageTreeRootDict ctx)))"

text \<open>
  \<open>OptimizeXRefTable\<close>; \<open>calcBinarySizes\<close> only gathers statistics and is the parameter
  \<open>stats\<close>.
\<close>

definition OptimizeXRefTable ::
  "Collaborators \<Rightarrow> (Context \<Rightarrow> Dict \<Rightarrow> error option \<times> Context)
     \<Rightarrow> (Context \<Rightarrow> error option \<times> Context) \<Rightarrow> Context \<Rightarrow> error option \<times> Context" where
  "OptimizeXRefTable ext walk stats ctx =
     (case optimizeFontAndImages ext walk ctx of
        (Some err, ctx) \<Rightarrow> (Some err, ctx)
      | (None, ctx) \<Rightarrow>
         (case stats ctx of
            (Some err, ctx) \<Rightarrow> (Some err, ctx)
          | (None, ctx) \<Rightarrow> (None, ctx\<lparr>XRefTable := (XRefTable ctx)\<lparr>Optimized := True\<rparr>\<rparr>)))"

section \<open>Deleting redundant objects\<close>

text \<open>
  Modelled from the spec: \<open>DeleteObject\<close>, a method of \<open>*XRefTable\<close> that is not part of the
  source files modelled here: "convert entry to Free and splice into the free list at its head". The
  head of the free list is object 0, and the \<open>Offset\<close> of a free entry holds the number of the
  next free object. Where the entry or the head is missing there is nothing to convert or to
  splice into, and the table is left as it is.
\<close>

definition DeleteObject :: "int \<Rightarrow> XRefTable \<Rightarrow> XRefTable" where
  "DeleteObject objNr xt =
     (case (Table xt objNr, Table xt 0) of
        (Some entry, Some head) \<Rightarrow>
          xt\<lparr>Table := (Table xt)(objNr \<mapsto> entry\<lparr>Free := True, Offset := Offset head\<rparr>,
                                  0 \<mapsto> (if objNr = 0 then entry\<lparr>Free := True, Offset := Some 0\<rparr>
                                         else head\<lparr>Offset := Some objNr\<rparr>))\<rparr>
      | _ \<Rightarrow> xt)"

text \<open>
  Modelled from the spec: the membership tests of the contexts, which are not part of the
  source files modelled here. \<open>HasWriteOffset\<close>: "\<open>table[n]\<close> is defined iff object \<open>n\<close> has been written";
  the others test the set of their name ("in \<open>duplicateFontObjs\<close>", "in
  \<open>duplicateInfoObjects\<close>", "a linearization object", "an object-stream envelope from the
  input", "an xref-stream object from the input").
\<close>

definition HasWriteOffset :: "WriteContext \<Rightarrow> int \<Rightarrow> bool" where
  "HasWriteOffset w objNr = (Write_Table w objNr \<noteq> None)"

definition IsDuplicateFontObject :: "OptimizationContext \<Rightarrow> int \<Rightarrow> bool" where
  "IsDuplicateFontObject oc objNr = (objNr \<in> DuplicateFontObjs oc)"

definition IsDuplicateImageObject :: "OptimizationContext \<Rightarrow> int \<Rightarrow> bool" where
  "IsDuplicateImageObject oc objNr = (objNr \<in> DuplicateImageObjs oc)"

definition IsDuplicateInfoObject :: "OptimizationContext \<Rightarrow> int \<Rightarrow> bool" where
  "IsDuplicateInfoObject oc objNr = (objNr \<in> DuplicateInfoObjects oc)"

definition IsLinearizationObject :: "XRefTable \<Rightarrow> int \<Rightarrow> bool" where
  "IsLinearizationObject xt objNr = (objNr \<in> LinearizationObjs xt)"

definition IsObjectStreamObject :: "ReadContext \<Rightarrow> int \<Rightarrow> bool" where
  "IsObjectStreamObject r objNr = (objNr \<in> ObjectStreams r)"

definition IsXRefStreamObject :: "ReadContext \<Rightarrow> int \<Rightarrow> bool" where
  "IsXRefStreamObject r objNr = (objNr \<in> XRefStreams r)"

text \<open>
  The functions of this section return, next to the context, the object numbers on which
  they have called \<open>DeleteObject\<close>, in the order of the calls, and a panic if a nil context is
  dereferenced. \<open>callDeleteObject\<close> is one call of \<open>ctx.DeleteObject(objNr)\<close>, whose result the
  code ignores.
\<close>

type_synonym deletion = "error option \<times> Context \<times> int list"

definition callDeleteObject :: "Context \<Rightarrow> int \<Rightarrow> int list \<Rightarrow> Context \<times> int list" where
  "callDeleteObject ctx objNr calls =
     (ctx\<lparr>XRefTable := DeleteObject objNr (XRefTable ctx)\<rparr>, calls @ [objNr])"

text \<open>
  \<open>deleteRedundantObject\<close>. Both conditions are evaluated left to right and stop at the
  first operand that decides them, so a nil \<open>ctx.Optimize\<close> or \<open>ctx.Read\<close> panics only when its
  operand is reached.
\<close>

definition deleteRedundantObject :: "Context \<Rightarrow> int \<Rightarrow> deletion" where
  "deleteRedundantObject ctx objNr =
     (let first =
            (if ExtractPageNr (Write ctx) = 0
             then (case Optimize ctx of
                     None \<Rightarrow> (Some nilDeref, ctx, [])
                   | Some oc \<Rightarrow>
                      if IsDuplicateFontObject oc objNr \<or> IsDuplicateImageObject oc objNr
                      then (case callDeleteObject ctx objNr [] of (c, calls) \<Rightarrow> (None, c, calls))
                      else (None, ctx, []))
             else (None, ctx, []))
      in case first of
           (Some err, ctx, calls) \<Rightarrow> (Some err, ctx, calls)
         | (None, ctx, calls) \<Rightarrow>
            if IsLinearizationObject (XRefTable ctx) objNr
            then (case callDeleteObject ctx objNr calls of (c, calls) \<Rightarrow> (None, c, calls))
            else (case Optimize ctx of
                    None \<Rightarrow> (Some nilDeref, ctx, calls)
                  | Some oc \<Rightarrow>
                     if IsDuplicateInfoObject oc objNr
                     then (case callDeleteObject ctx objNr calls of (c, calls) \<Rightarrow> (None, c, calls))
                     else (case Read ctx of
                             None \<Rightarrow> (Some nilDeref, ctx, calls)
                           | Some r \<Rightarrow>
                              if IsObjectStreamObject r objNr \<or> IsXRefStreamObject r objNr
                              then (case callDeleteObject ctx objNr calls of
                                      (c, calls) \<Rightarrow> (None, c, calls))
                              else (None, ctx, calls))))"

text \<open>
  The body of the loop of \<open>deleteRedundantObjects\<close> for the object number \<open>i\<close>:
  \<open>markLinearizationObject\<close> is the block guarded by \<open>ctx.Read.Linearized\<close>.
\<close>

definition isStreamDict :: "Object \<Rightarrow> bool" where
  "isStreamDict obj = (case obj of StreamDict d fp sd \<Rightarrow> True | _ \<Rightarrow> False)"

definition markLinearizationObject :: "Context \<Rightarrow> int \<Rightarrow> XRefTableEntry \<Rightarrow> error option \<times> Context" where
  "markLinearizationObject ctx i entry =
     (case Read ctx of
        None \<Rightarrow> (Some nilDeref, ctx)
      | Some r \<Rightarrow>
         (case Offset entry of
            Some off \<Rightarrow>
              if Linearized r \<and> isStreamDict (Object entry)
              then (case OffsetPrimaryHintTable (XRefTable ctx) of
                      None \<Rightarrow> (Some nilDeref, ctx)
                    | Some primary \<Rightarrow>
                       let ctx = (if off = primary
                                  then ctx\<lparr>XRefTable := (XRefTable ctx)
                                         \<lparr>LinearizationObjs := insert i (LinearizationObjs (XRefTable ctx))\<rparr>\<rparr>
                                  else ctx);
                           ctx = (if OffsetOverflowHintTable (XRefTable ctx) = Some off
                                  then ctx\<lparr>XRefTable := (XRefTable ctx)
                                         \<lparr>LinearizationObjs := insert i (LinearizationObjs (XRefTable ctx))\<rparr>\<rparr>
                                  else ctx)
                       in (None, ctx))
              else (None, ctx)
          | None \<Rightarrow> (None, ctx)))"

definition deleteRedundantObjects_body :: "Context \<Rightarrow> int \<Rightarrow> deletion" where
  "deleteRedundantObjects_body ctx i =
     (case Table (XRefTable ctx) i of
        None \<Rightarrow> (None, ctx, [])
      | Some entry \<Rightarrow>
         if Free entry then (None, ctx, [])
         else if HasWriteOffset (Write ctx) i
         then (case Optimize ctx of
                 None \<Rightarrow> (Some nilDeref, ctx, [])
               | Some oc \<Rightarrow>
                  (None,
                   ctx\<lparr>Optimize := Some (oc\<lparr>DuplicateFontObjs := DuplicateFontObjs oc - {i},
                                            DuplicateImageObjs := DuplicateImageObjs oc - {i},
                                            DuplicateInfoObjects := DuplicateInfoObjects oc - {i}\<rparr>)\<rparr>,
                   []))
         else (case markLinearizationObject ctx i entry of
                 (Some err, ctx) \<Rightarrow> (Some err, ctx, [])
               | (None, ctx) \<Rightarrow> deleteRedundantObject ctx i))"

text \<open>
  \<open>deleteRedundantObjects\<close>. The loop reads \<open>*xRefTable.Size\<close> before every iteration; it
  terminates because no iteration changes the size.
\<close>

lemma DeleteObject_frame [simp]:
  "Size (DeleteObject j xt) = Size xt"
  "LinearizationObjs (DeleteObject j xt) = LinearizationObjs xt"
  by (simp_all add: DeleteObject_def split: option.splits)

lemma callDeleteObject_frame:
  assumes "callDeleteObject ctx j calls = (ctx', calls')"
  shows "calls' = calls @ [j]" "Write ctx' = Write ctx" "Optimize ctx' = Optimize ctx"
    "Read ctx' = Read ctx" "XRefTable ctx' = DeleteObject j (XRefTable ctx)"
  using assms by (auto simp add: callDeleteObject_def)

lemma deleteRedundantObject_frame:
  assumes "deleteRedundantObject ctx j = (err, ctx', calls)"
  shows "set calls \<subseteq> {j} \<and> Write ctx' = Write ctx \<and> Optimize ctx' = Optimize ctx
         \<and> Read ctx' = Read ctx
         \<and> (XRefTable ctx' = XRefTable ctx
             \<or> XRefTable ctx' = DeleteObject j (XRefTable ctx)
             \<or> XRefTable ctx' = DeleteObject j (DeleteObject j (XRefTable ctx)))"
  using assms
  by (auto simp add: deleteRedundantObject_def callDeleteObject_def Let_def
        split: if_splits option.splits prod.splits)


lemma markLinearizationObject_frame:
  assumes "markLinearizationObject ctx i entry = (err, ctx')"
  shows "Write ctx' = Write ctx \<and> Optimize ctx' = Optimize ctx \<and> Read ctx' = Read ctx
         \<and> Table (XRefTable ctx') = Table (XRefTable ctx)
         \<and> Size (XRefTable ctx') = Size (XRefTable ctx)"
  using assms
  by (auto simp add: markLinearizationObject_def Let_def split: if_splits option.splits)

lemma deleteRedundantObjects_body_Size:
  assumes "deleteRedundantObjects_body ctx i = (err, ctx', calls)"
  shows "Size (XRefTable ctx') = Size (XRefTable ctx)"
proof (cases "\<exists>entry. Table (XRefTable ctx) i = Some entry \<and> \<not> Free entry
                \<and> \<not> HasWriteOffset (Write ctx) i")
  case False
  with assms show ?thesis
    by (auto simp add: deleteRedundantObjects_body_def split: option.splits if_splits)
next
  case True
  then obtain entry where e: "Table (XRefTable ctx) i = Some entry" "\<not> Free entry"
    "\<not> HasWriteOffset (Write ctx) i"
    by blast
  obtain merr mctx where m: "markLinearizationObject ctx i entry = (merr, mctx)"
    by (cases "markLinearizationObject ctx i entry")
  note mf = markLinearizationObject_frame [OF m]
  show ?thesis
  proof (cases merr)
    case (Some x)
    with assms e m mf show ?thesis
      by (simp add: deleteRedundantObjects_body_def)
  next
    case None
    with assms e m have "deleteRedundantObject mctx i = (err, ctx', calls)"
      by (simp add: deleteRedundantObjects_body_def)
    from deleteRedundantObject_frame [OF this] mf show ?thesis
      by auto
  qed
qed

function deleteRedundantObjects_loop :: "int \<Rightarrow> Context \<Rightarrow> int list \<Rightarrow> deletion" where
  "deleteRedundantObjects_loop i ctx calls =
     (if i < Size (XRefTable ctx)
      then (case deleteRedundantObjects_body ctx i of
              (Some err, ctx', cs) \<Rightarrow> (Some err, ctx', calls @ cs)
            | (None, ctx', cs) \<Rightarrow> deleteRedundantObjects_loop (i + 1) ctx' (calls @ cs))
      else (None, ctx, calls))"
  by pat_completeness auto
termination
  by (relation "measure (\<lambda>(i, ctx, calls). nat (Size (XRefTable ctx) - i))")
     (auto dest: deleteRedundantObjects_body_Size [OF sym])

declare deleteRedundantObjects_loop.simps [simp del]

definition deleteRedundantObjects :: "Context \<Rightarrow> deletion" where
  "deleteRedundantObjects ctx =
     (if Optimize ctx = None then (None, ctx, [])
      else deleteRedundantObjects_loop 0 ctx [])"


text \<open>
  An object survives when its entry is still in the table and not Free, and is the entry it
  was unless it is object 0 (the head of the free list, whose link \<open>DeleteObject\<close> rewrites).
  It is removed from the duplicate sets when it is in none of the three.
\<close>

definition survives :: "int \<Rightarrow> XRefTableEntry \<Rightarrow> Context \<Rightarrow> bool" where
  "survives i e ctx =
     (\<exists>e'. Table (XRefTable ctx) i = Some e' \<and> \<not> Free e' \<and> (i \<noteq> 0 \<longrightarrow> e' = e))"

definition removed :: "int \<Rightarrow> Context \<Rightarrow> bool" where
  "removed i ctx =
     (\<forall>oc. Optimize ctx = Some oc \<longrightarrow>
        i \<notin> DuplicateFontObjs oc \<and> i \<notin> DuplicateImageObjs oc \<and> i \<notin> DuplicateInfoObjects oc)"

section \<open>Optimization: fonts and images\<close>

text \<open>
  Modelled from the spec: \<open>Type\<close> and \<open>Subtype\<close> of a \<open>Dict\<close>, methods of the object model that
  are not part of the source files modelled here ("assert \<open>/Type = /Font\<close>", "if subtype is Type3"): the
  name stored under the key, nil when the key is absent or holds no name.
\<close>

definition NameEntry :: "Dict \<Rightarrow> string \<Rightarrow> string option" where
  "NameEntry d key = (case map_of d key of Some (Name n) \<Rightarrow> Some n | _ \<Rightarrow> None)"

definition Dict_Type :: "Dict \<Rightarrow> string option" where
  "Dict_Type d = NameEntry d ''Type''"

definition Dict_Subtype :: "Dict \<Rightarrow> string option" where
  "Dict_Subtype d = NameEntry d ''Subtype''"

text \<open>
  Modelled from the spec: \<open>AddResourceName\<close> of a font or image object, which is not part of
  the source files modelled here ("add resourceName to the canonical's set"); the names are kept in a
  slice.
\<close>

definition AddResourceName :: "string \<Rightarrow> string list \<Rightarrow> string list" where
  "AddResourceName resourceName names =
     (if resourceName \<in> set names then names else names @ [resourceName])"

text \<open>
  \<open>strings.Index(s, "+")\<close> of the Go library, for a one-byte separator: the index of its
  first occurrence, or -1.
\<close>

fun strings_Index :: "string \<Rightarrow> char \<Rightarrow> int" where
  "strings_Index [] c = - 1"
| "strings_Index (x # xs) c =
     (if x = c then 0
      else (let r = strings_Index xs c in if r < 0 then - 1 else r + 1))"

text \<open>
  The functions below work on \<open>ctx.Optimize\<close> and \<open>ctx.XRefTable\<close>, passed as \<open>oc\<close> and \<open>xt\<close>, and
  return the optimize context as they leave it. Indexing \<open>PageFonts\<close> or \<open>PageImages\<close> out of
  range panics, and so does an assignment into a nil \<open>IntSet\<close>. The arguments of the error
  messages' format verbs are left out.
\<close>

definition pageInRange :: "'a list \<Rightarrow> int \<Rightarrow> bool" where
  "pageInRange pages pageNumber = (0 \<le> pageNumber \<and> pageNumber < int (length pages))"

definition indexPanic :: error where
  "indexPanic = Panic ''index out of range''"

definition nilMapPanic :: error where
  "nilMapPanic = Panic ''assignment to entry in nil map''"

text \<open>\<open>pageFonts\<close>: the set of the page, created when it is nil.\<close>

definition pageFonts :: "OptimizationContext \<Rightarrow> int \<Rightarrow> error option \<times> OptimizationContext" where
  "pageFonts oc pageNumber =
     (if \<not> pageInRange (PageFonts oc) pageNumber then (Some indexPanic, oc)
      else (case PageFonts oc ! nat pageNumber of
              None \<Rightarrow> (None, oc\<lparr>PageFonts := (PageFonts oc)[nat pageNumber := Some {}]\<rparr>)
            | Some pf \<Rightarrow> (None, oc)))"

text \<open>The assignment \<open>pageFonts[objNr] = true\<close> into the set of page \<open>pageNumber\<close>.\<close>

definition markPageFont :: "OptimizationContext \<Rightarrow> int \<Rightarrow> int \<Rightarrow> error option \<times> OptimizationContext" where
  "markPageFont oc pageNumber objNr =
     (if \<not> pageInRange (PageFonts oc) pageNumber then (Some indexPanic, oc)
      else (case PageFonts oc ! nat pageNumber of
              None \<Rightarrow> (Some nilMapPanic, oc)
            | Some pf \<Rightarrow>
               (None, oc\<lparr>PageFonts := (PageFonts oc)[nat pageNumber := Some (insert objNr pf)]\<rparr>)))"

text \<open>
  \<open>handleDuplicateFontObject\<close>: the loop over \<open>fontObjectNumbers\<close>, then the function. The
  result is the pair \<open>(*int, error)\<close>.
\<close>

fun handleDuplicateFontObject_loop ::
  "Collaborators \<Rightarrow> XRefTable \<Rightarrow> OptimizationContext \<Rightarrow> Dict \<Rightarrow> string \<Rightarrow> int \<Rightarrow> int \<Rightarrow> int list
     \<Rightarrow> (int option \<times> error option) \<times> OptimizationContext" where
  "handleDuplicateFontObject_loop ext xt oc font resourceName objNr pageNumber [] =
     ((None, None), oc)"
| "handleDuplicateFontObject_loop ext xt oc font resourceName objNr pageNumber
     (fontObjectNumber # fontObjectNumbers) =
     (case FontObjects oc fontObjectNumber of
        None \<Rightarrow> ((None, Some nilDeref), oc)
      | Some fontObject \<Rightarrow>
         (case equalFontDicts ext (FontDict fontObject) font xt of
            (ok, Some err) \<Rightarrow> ((None, Some err), oc)
          | (ok, None) \<Rightarrow>
             if ok
             then (case markPageFont oc pageNumber fontObjectNumber of
                     (Some err, oc) \<Rightarrow> ((None, Some err), oc)
                   | (None, oc) \<Rightarrow>
                      ((Some fontObjectNumber, None),
                       oc\<lparr>FontObjects := (FontObjects oc)
                             (fontObjectNumber \<mapsto> fontObject
                                \<lparr>ResourceNames := AddResourceName resourceName (ResourceNames fontObject)\<rparr>),
                          DuplicateFonts := (DuplicateFonts oc)(objNr \<mapsto> font)\<rparr>))
             else handleDuplicateFontObject_loop ext xt oc font resourceName objNr pageNumber
                    fontObjectNumbers))"

definition handleDuplicateFontObject ::
  "Collaborators \<Rightarrow> XRefTable \<Rightarrow> OptimizationContext \<Rightarrow> Dict \<Rightarrow> string \<Rightarrow> string \<Rightarrow> int \<Rightarrow> int
     \<Rightarrow> (int option \<times> error option) \<times> OptimizationContext" where
  "handleDuplicateFontObject ext xt oc font fontName resourceName objNr pageNumber =
     (case Fonts oc fontName of
        None \<Rightarrow> ((None, None), oc)
      | Some fontObjectNumbers \<Rightarrow>
         if \<not> pageInRange (PageFonts oc) pageNumber then ((None, Some indexPanic), oc)
         else handleDuplicateFontObject_loop ext xt oc font resourceName objNr pageNumber
                fontObjectNumbers)"

text \<open>\<open>fontName\<close>. \<open>*fontDict.Subtype()\<close> panics when the dict has no \<open>Subtype\<close> name.\<close>

definition fontName :: "Collaborators \<Rightarrow> XRefTable \<Rightarrow> Dict \<Rightarrow> int \<Rightarrow> string \<times> error option" where
  "fontName ext xt fontDict objNumber =
     (case Dict_Subtype fontDict of
        None \<Rightarrow> ([], Some nilDeref)
      | Some subtype \<Rightarrow>
         let found =
               (if subtype \<noteq> ''Type3''
                then (case map_of fontDict ''BaseFont'' of
                        Some obj \<Rightarrow> Inr obj
                      | None \<Rightarrow>
                         (case map_of fontDict ''Name'' of
                            Some obj \<Rightarrow> Inr obj
                          | None \<Rightarrow> Inl ([], Some (Err ''fontName: missing fontDict entries BaseFont and Name''))))
                else (case map_of fontDict ''Name'' of
                        Some obj \<Rightarrow> Inr obj
                      | None \<Rightarrow> Inl (''Type3_'' @ fmt_d objNumber, None)))
         in case found of
              Inl result \<Rightarrow> result
            | Inr obj \<Rightarrow>
               (case Dereference ext xt obj of
                  (obj, Some err) \<Rightarrow> ([], Some err)
                | (obj, None) \<Rightarrow>
                   (case obj of
                      Name baseFont \<Rightarrow> (baseFont, None)
                    | _ \<Rightarrow> ([], Some (Err ''fontName: corrupt fontDict entry BaseFont'')))))"

text \<open>
  The body of the loop of \<open>optimizeFontResourcesDict\<close> for one entry \<open>resourceName, v\<close> of the
  font resources dict, in three parts: \<open>subsetPrefix\<close> isolates the font name prefix,
  \<open>registerFont\<close> is the branch \<open>uniqueFontObjNr == nil\<close>, and
  \<open>optimizeFontResourcesDict_body\<close> is the body, which returns the error, the optimize
  context and the font resources dict as it leaves them. The function calls
  \<open>pageFonts(ctx, pageNumber)\<close> once before the loop.
\<close>

definition subsetPrefix :: "string \<Rightarrow> string \<times> string" where
  "subsetPrefix fn =
     (let i = strings_Index fn CHR ''+''
      in if i > 0 then (take (nat i) fn, drop (nat (i + 1)) fn) else ([], fn))"

definition registerFont ::
  "OptimizationContext \<Rightarrow> Dict \<Rightarrow> string \<Rightarrow> string \<Rightarrow> string \<Rightarrow> int \<Rightarrow> int
     \<Rightarrow> error option \<times> OptimizationContext" where
  "registerFont oc fontDict prefix fn resourceName objectNumber pageNumber =
     (let oc = oc\<lparr>Fonts := (Fonts oc)
                   (fn \<mapsto> (case Fonts oc fn of
                              Some fontObjectNumbers \<Rightarrow> fontObjectNumbers @ [objectNumber]
                            | None \<Rightarrow> [objectNumber]))\<rparr>;
          oc = oc\<lparr>FontObjects := (FontObjects oc)
                   (objectNumber \<mapsto> \<lparr>ResourceNames = [resourceName], Prefix = prefix,
                                     FontName = fn, FontDict = fontDict\<rparr>)\<rparr>
      in markPageFont oc pageNumber objectNumber)"

definition optimizeFontResourcesDict_body ::
  "Collaborators \<Rightarrow> XRefTable \<Rightarrow> OptimizationContext \<Rightarrow> Dict \<Rightarrow> int \<Rightarrow> string \<Rightarrow> Object
     \<Rightarrow> error option \<times> OptimizationContext \<times> Dict" where
  "optimizeFontResourcesDict_body ext xt oc fontResourcesDict pageNumber resourceName v =
     (case v of
        IndirectRef objectNumber genNr \<Rightarrow>
          if FontObjects oc objectNumber \<noteq> None
          then (case markPageFont oc pageNumber objectNumber of
                  (err, oc) \<Rightarrow> (err, oc, fontResourcesDict))
          else
            (case Dereference ext xt v of
               (obj, Some err) \<Rightarrow>
                 (Some (Err ''optimizeFontResourcesDict: missing obj for indirect object ref''),
                  oc, fontResourcesDict)
             | (obj, None) \<Rightarrow>
                (case obj of
                   Dict fontDict \<Rightarrow>
                     (case Dict_Type fontDict of
                        None \<Rightarrow>
                          (Some (Err ''optimizeFontResourcesDict: missing dict type''),
                           oc, fontResourcesDict)
                      | Some t \<Rightarrow>
                         if t \<noteq> ''Font''
                         then (Some (Err ''optimizeFontResourcesDict: expected Type=Font, unexpected Type''),
                               oc, fontResourcesDict)
                         else
                           (case fontName ext xt fontDict objectNumber of
                              (fn, Some err) \<Rightarrow> (Some err, oc, fontResourcesDict)
                            | (fn, None) \<Rightarrow>
                               (case subsetPrefix fn of
                                  (prefix, fn) \<Rightarrow>
                                    (case handleDuplicateFontObject ext xt oc fontDict fn
                                            resourceName objectNumber pageNumber of
                                       ((uniqueFontObjNr, Some err), oc) \<Rightarrow>
                                         (Some err, oc, fontResourcesDict)
                                     | ((None, None), oc) \<Rightarrow>
                                         (case registerFont oc fontDict prefix fn resourceName
                                                 objectNumber pageNumber of
                                            (err, oc) \<Rightarrow> (err, oc, fontResourcesDict))
                                     | ((Some uniqueFontObjNr, None), oc) \<Rightarrow>
                                         (None, oc,
                                          dictUpdate resourceName (IndirectRef uniqueFontObjNr 0)
                                            fontResourcesDict)))))
                 | _ \<Rightarrow> (Some (Panic ''interface conversion: Object is not Dict''),
                         oc, fontResourcesDict)))
      | _ \<Rightarrow> (Some (Err ''optimizeFontResourcesDict: missing indirect object ref for Font''),
              oc, fontResourcesDict))"






text \<open>
  The registry of fonts is consistent when every object number listed under a name in
  \<open>Fonts\<close> has a font object of that name in \<open>FontObjects\<close>.
\<close>

definition fontsRegistered :: "OptimizationContext \<Rightarrow> bool" where
  "fontsRegistered oc =
     (\<forall>name ns u. Fonts oc name = Some ns \<and> u \<in> set ns \<longrightarrow>
        (\<exists>fo. FontObjects oc u = Some fo \<and> FontName fo = name))"

section \<open>Example values\<close>

text \<open>Concrete contexts and entries on which the theorems below are instantiated.\<close>

definition exampleXRefTable :: XRefTable where
  "exampleXRefTable =
     \<lparr>Table = Map.empty, Size = 1, PageCount = 0, Root = None, Info = None, ID = None,
      Encrypt = None, E = None, EncKey = None, OffsetPrimaryHintTable = None,
      OffsetOverflowHintTable = None, LinearizationObjs = {}, Optimized = False\<rparr>"

definition exampleConfiguration :: Configuration where
  "exampleConfiguration =
     \<lparr>Mode = OPTIMIZE, WriteObjectStream = True, WriteXRefStream = True,
      EncryptUsingAES = False, EncryptUsing128BitKey = False, UserAccessPermissions = 0,
      UserPW = [], UserPWNew = None, OwnerPW = [], OwnerPWNew = None\<rparr>"

definition exampleContext :: Context where
  "exampleContext =
     \<lparr>Configuration = exampleConfiguration, XRefTable = exampleXRefTable,
      Read = None, Optimize = None,
      Write = \<lparr>Write_Offset = 0, Write_Table = Map.empty, ExtractPageNr = 0\<rparr>\<rparr>"

definition exampleEntry :: "Object \<Rightarrow> XRefTableEntry" where
  "exampleEntry obj =
     \<lparr>Free = False, Offset = None, Generation = Some 0, Object = obj,
      Compressed = False, ObjectStream = None, ObjectStreamInd = None\<rparr>"

definition exampleObjectStream :: ObjectStreamDict where
  "exampleObjectStream =
     \<lparr>StreamOffset = 0, StreamLength = None, StreamLengthObjNr = None, Raw = [],
      Content = ''<<>>'', IsPageContent = False, Entries = [], FilterPipeline = [],
      Prolog = ''5 0'', ObjCount = 1, FirstObjOffset = 0, ObjArray = None\<rparr>"

definition exampleContextWithID :: "Object list \<Rightarrow> Context" where
  "exampleContextWithID arr = exampleContext\<lparr>XRefTable := exampleXRefTable\<lparr>ID := Some arr\<rparr>\<rparr>"

definition exampleCollaborators :: Collaborators where
  "exampleCollaborators =
     \<lparr>newEncryptDict = (\<lambda>aes k128 perms. [(''Filter'', Name ''Standard''), (''P'', Integer perms)]),
      supportedEncryption = (\<lambda>ctx d. (Some \<lparr>Enc_O = [], Enc_U = [], Enc_ID = [], Enc_P = 0\<rparr>, None)),
      IDFirstElement = (\<lambda>xt. (''id'', None)),
      compute_o = (\<lambda>ctx. (''o'', None)),
      compute_u = (\<lambda>ctx. (''u'', Some ''key'', None)),
      NewXRefTableEntryGen0 = exampleEntry,
      InsertAndUseRecycled = (\<lambda>xt e. ((Size xt, None),
                                xt\<lparr>Table := (Table xt)(Size xt \<mapsto> e), Size := Size xt + 1\<rparr>)),
      EnsureValidFreeList = (\<lambda>xt. (None, xt)),
      Pages = (\<lambda>ctx. (Some (2, 0), None)),
      DereferenceDict = (\<lambda>xt obj. case obj of
                           IndirectRef n g \<Rightarrow>
                             (case Table xt n of
                                Some e \<Rightarrow> (case Object e of Dict d \<Rightarrow> (Some d, None)
                                           | _ \<Rightarrow> (None, Some (Err ''no dict'')))
                              | None \<Rightarrow> (None, None))
                         | Dict d \<Rightarrow> (Some d, None)
                         | _ \<Rightarrow> (None, Some (Err ''no dict''))),
      Dereference = (\<lambda>xt obj. case obj of
                       IndirectRef n g \<Rightarrow>
                         (case Table xt n of Some e \<Rightarrow> (Object e, None) | None \<Rightarrow> (Null, None))
                     | _ \<Rightarrow> (obj, None)),
      equalFontDicts = (\<lambda>a b xt. (a = b, None)),
      equalStreamDicts = (\<lambda>a b xt. (a = b, None))\<rparr>"

definition exampleEncryptContext :: Context where
  "exampleEncryptContext =
     exampleContext
       \<lparr>Configuration := exampleConfiguration\<lparr>Mode := ENCRYPT\<rparr>,
        XRefTable := exampleXRefTable\<lparr>ID := Some [HexLiteral ''aa'', HexLiteral ''bb'']\<rparr>,
        Read := Some \<lparr>UsingXRefStreams = False, Linearized = False,
                      ObjectStreams = {}, XRefStreams = {}\<rparr>\<rparr>"

definition exampleXRefStreamContext :: Context where
  "exampleXRefStreamContext =
     exampleContext
       \<lparr>XRefTable := exampleXRefTable
          \<lparr>Table := [0 \<mapsto> (exampleEntry Null)\<lparr>Free := True, Offset := Some 0, Generation := Some 65535\<rparr>,
                      1 \<mapsto> exampleEntry (Dict [(''Type'', Name ''Catalog'')])],
           Size := 2, Root := Some (1, 0)\<rparr>,
        Write := \<lparr>Write_Offset = 65536, Write_Table = [1 \<mapsto> 15], ExtractPageNr = 0\<rparr>\<rparr>"


definition exampleXRefStreamOutput :: XRefStreamOutput where
  "exampleXRefStreamOutput =
     \<lparr>out_ctx = exampleXRefStreamContext
        \<lparr>XRefTable := (XRefTable exampleXRefStreamContext)
           \<lparr>Table := (Table (XRefTable exampleXRefStreamContext))
                       (2 \<mapsto> exampleEntry (StreamDict
                          [(''Type'', Name ''XRef''), (''Filter'', Name ''FlateDecode''),
                           (''Root'', IndirectRef 1 0)]
                          [(''FlateDecode'', None)]
                          \<lparr>StreamOffset = 0, StreamLength = None, StreamLengthObjNr = None,
                           Raw = [], Content = [], IsPageContent = False\<rparr>)),
            Size := 3\<rparr>\<rparr>,
      out_objNumber = 2,
      out_dict = [(''Type'', Name ''XRef''), (''Filter'', Name ''FlateDecode''),
                  (''Root'', IndirectRef 1 0), (''Size'', Integer 3),
                  (''W'', Array [Integer 1, Integer 3, Integer 2]),
                  (''Index'', Array [Integer 0, Integer 2])],
      out_content = [0, 0, 0, 0, 255, 255, 1, 0, 0, 15, 0, 0],
      out_startxref = 65536\<rparr>"

definition exampleOptimize :: OptimizationContext where
  "exampleOptimize =
     \<lparr>PageFonts = [], FontObjects = Map.empty, Fonts = Map.empty, DuplicateFonts = Map.empty,
      DuplicateFontObjs = {}, PageImages = [], ImageObjects = Map.empty,
      DuplicateImages = Map.empty, DuplicateImageObjs = {}, DuplicateInfoObjects = {}\<rparr>"

definition examplePagesContext :: "int \<Rightarrow> Dict \<Rightarrow> Context" where
  "examplePagesContext pageCount rootDict =
     exampleContext
       \<lparr>XRefTable := exampleXRefTable
          \<lparr>Table := [2 \<mapsto> exampleEntry (Dict rootDict)], Size := 3, PageCount := pageCount\<rparr>,
        Optimize := Some exampleOptimize\<rparr>"

definition exampleFreeHead :: XRefTableEntry where
  "exampleFreeHead = (exampleEntry Null)\<lparr>Free := True, Offset := Some 0, Generation := Some 65535\<rparr>"

definition exampleDeleteContext :: "int \<Rightarrow> Context" where
  "exampleDeleteContext extractPageNr =
     exampleContext
       \<lparr>XRefTable := exampleXRefTable
          \<lparr>Table := [0 \<mapsto> exampleFreeHead,
                      1 \<mapsto> exampleEntry (Dict [(''Type'', Name ''FontDescriptor'')]),
                      2 \<mapsto> exampleEntry (Dict [(''Type'', Name ''Font'')]),
                      3 \<mapsto> exampleEntry (Dict [(''Linearized'', Integer 1)])],
           Size := 4, LinearizationObjs := {3}\<rparr>,
        Read := Some \<lparr>UsingXRefStreams = False, Linearized = False,
                      ObjectStreams = {}, XRefStreams = {}\<rparr>,
        Optimize := Some (exampleOptimize\<lparr>DuplicateFontObjs := {1, 2}\<rparr>),
        Write := \<lparr>Write_Offset = 200, Write_Table = [1 \<mapsto> 15], ExtractPageNr = extractPageNr\<rparr>\<rparr>"

definition exampleFontDict :: "string \<Rightarrow> Dict" where
  "exampleFontDict baseFont =
     [(''Type'', Name ''Font''), (''Subtype'', Name ''Type1''), (''BaseFont'', Name baseFont)]"

definition exampleFontTable :: XRefTable where
  "exampleFontTable =
     exampleXRefTable
       \<lparr>Table := [10 \<mapsto> exampleEntry (Dict (exampleFontDict ''ABCDEF+Times-Roman'')),
                   15 \<mapsto> exampleEntry (Dict (exampleFontDict ''ABCDEF+Times-Roman'')),
                   16 \<mapsto> exampleEntry (Dict (exampleFontDict ''+Plus''))],
        Size := 17\<rparr>"

definition examplePageOptimize :: OptimizationContext where
  "examplePageOptimize = exampleOptimize\<lparr>PageFonts := [Some {}], PageImages := [Some {}]\<rparr>"

definition exampleRegisteredOptimize :: OptimizationContext where
  "exampleRegisteredOptimize =
     examplePageOptimize
       \<lparr>PageFonts := [Some {10}],
        FontObjects := [10 \<mapsto> \<lparr>ResourceNames = [''F1''], Prefix = ''ABCDEF'',
                                  FontName = ''Times-Roman'',
                                  FontDict = exampleFontDict ''ABCDEF+Times-Roman''\<rparr>],
        Fonts := [''Times-Roman'' \<mapsto> [10]]\<rparr>"


text \<open>
  A font table with two more subset fonts, and a comparison of font dicts that leaves the
  \<open>BaseFont\<close> entry out.
\<close>

definition examplePrefixTable :: XRefTable where
  "examplePrefixTable =
     exampleFontTable
       \<lparr>Table := (Table exampleFontTable)
                    (17 \<mapsto> exampleEntry (Dict (exampleFontDict ''GHIJKL+Times-Roman'')),
                     18 \<mapsto> exampleEntry (Dict (exampleFontDict ''AB+X''))),
        Size := 19\<rparr>"

definition examplePrefixBlindCollaborators :: Collaborators where
  "examplePrefixBlindCollaborators =
     exampleCollaborators
       \<lparr>equalFontDicts := (\<lambda>a b xt. (filter (\<lambda>e. fst e \<noteq> ''BaseFont'') a
                                      = filter (\<lambda>e. fst e \<noteq> ''BaseFont'') b, None))\<rparr>"









section \<open>Theorems\<close>

text \<open>
  C10. \<open>AddObject\<close> is not atomic on error. The pair "objNr offset" is appended to the Prolog
  before the object's variant is inspected: preceded by a space when \<open>ObjCount > 0\<close>, with
  the offset equal to the length of Content before the call. For every entry whose object is
  none of Dict, Array, Integer, Float, StringLiteral, HexLiteral, Boolean, Name (a stream
  dict, an indirect ref, null), the call returns an error, the Prolog has been extended, and
  Content and ObjCount are as before.
\<close>

theorem AddObject_not_atomic_on_error:
  assumes "\<not> packable (Object e)"
  shows "\<exists>err os'. AddObject pdfString os objNumber (Some e) = (Some err, os')
           \<and> Prolog os' = Prolog os @ (if ObjCount os > 0 then '' '' else [])
                 @ fmt_d objNumber @ '' '' @ fmt_d (int (length (Content os)))
           \<and> length (Prolog os') > length (Prolog os)
           \<and> Content os' = Content os \<and> ObjCount os' = ObjCount os"
  using assms
  by (cases "Object e") (simp_all add: AddObject_def Let_def)

theorem AddObject_not_atomic_on_error_witness:
  "\<not> packable (Object (exampleEntry (IndirectRef 3 0)))
   \<and> (\<exists>err os'. AddObject (\<lambda>x. ''null'') exampleObjectStream 12
                     (Some (exampleEntry (IndirectRef 3 0))) = (Some err, os')
        \<and> Prolog exampleObjectStream = ''5 0'' \<and> Prolog os' = ''5 0 12 4''
        \<and> Content os' = ''<<>>'' \<and> ObjCount os' = 1)"
  using AddObject_not_atomic_on_error
          [of "exampleEntry (IndirectRef 3 0)" "\<lambda>x. ''null''" exampleObjectStream 12]
  by (auto simp add: exampleEntry_def exampleObjectStream_def fmt_d_def dec_nat.simps)

text \<open>
  C8. \<open>ensureFileID\<close> keeps the File ID array at exactly two elements. With a freshly
  computed digest \<open>fid\<close>: a nil \<open>ctx.ID\<close> becomes the array \<open>[fid, fid]\<close>; an array of exactly
  two elements keeps element 0 and gets \<open>fid\<close> as element 1; an array of any other length
  makes the call return an error and is not modified. Nothing else of the context changes.
\<close>

theorem ensureFileID_two_elements:
  assumes "fileID ctx = Inr fid"
  shows "(ID (XRefTable ctx) = None \<longrightarrow>
            ensureFileID fileID ctx
              = (None, ctx\<lparr>XRefTable := (XRefTable ctx)\<lparr>ID := Some [fid, fid]\<rparr>\<rparr>))
       \<and> (\<forall>arr. ID (XRefTable ctx) = Some arr \<and> length arr = 2 \<longrightarrow>
            ensureFileID fileID ctx
              = (None, ctx\<lparr>XRefTable := (XRefTable ctx)\<lparr>ID := Some [arr ! 0, fid]\<rparr>\<rparr>))
       \<and> (\<forall>arr. ID (XRefTable ctx) = Some arr \<and> length arr \<noteq> 2 \<longrightarrow>
            (\<exists>err. ensureFileID fileID ctx = (Some err, ctx)))"
proof (intro conjI allI impI)
  assume "ID (XRefTable ctx) = None"
  with assms show "ensureFileID fileID ctx
      = (None, ctx\<lparr>XRefTable := (XRefTable ctx)\<lparr>ID := Some [fid, fid]\<rparr>\<rparr>)"
    by (simp add: ensureFileID_def)
next
  fix arr assume a: "ID (XRefTable ctx) = Some arr \<and> length arr = 2"
  then obtain x y where "arr = [x, y]"
    by (cases arr; cases "tl arr") auto
  with a assms show "ensureFileID fileID ctx
      = (None, ctx\<lparr>XRefTable := (XRefTable ctx)\<lparr>ID := Some [arr ! 0, fid]\<rparr>\<rparr>)"
    by (simp add: ensureFileID_def)
next
  fix arr assume "ID (XRefTable ctx) = Some arr \<and> length arr \<noteq> 2"
  with assms show "\<exists>err. ensureFileID fileID ctx = (Some err, ctx)"
    by (simp add: ensureFileID_def)
qed

theorem ensureFileID_two_elements_witness:
  "ensureFileID (\<lambda>c. Inr (HexLiteral ''0f'')) exampleContext
     = (None, exampleContextWithID [HexLiteral ''0f'', HexLiteral ''0f''])
   \<and> ensureFileID (\<lambda>c. Inr (HexLiteral ''0f''))
        (exampleContextWithID [HexLiteral ''aa'', HexLiteral ''bb''])
     = (None, exampleContextWithID [HexLiteral ''aa'', HexLiteral ''0f''])
   \<and> (\<exists>err. ensureFileID (\<lambda>c. Inr (HexLiteral ''0f''))
        (exampleContextWithID [HexLiteral ''aa''])
     = (Some err, exampleContextWithID [HexLiteral ''aa'']))"
  using ensureFileID_two_elements
          [of "\<lambda>c. Inr (HexLiteral ''0f'')" exampleContext "HexLiteral ''0f''"]
        ensureFileID_two_elements
          [of "\<lambda>c. Inr (HexLiteral ''0f'')"
              "exampleContextWithID [HexLiteral ''aa'', HexLiteral ''bb'']" "HexLiteral ''0f''"]
        ensureFileID_two_elements
          [of "\<lambda>c. Inr (HexLiteral ''0f'')"
              "exampleContextWithID [HexLiteral ''aa'']" "HexLiteral ''0f''"]
  by (simp add: exampleContextWithID_def exampleContext_def exampleXRefTable_def)

lemma outputFlags_simps [simp]:
  "outputFlags (setE ctx e) = outputFlags ctx"
  "outputFlags (updateDictAt d k v ctx) = outputFlags ctx"
  "outputFlags (updatePasswords ctx) = outputFlags ctx"
  "outputFlags (ctx\<lparr>XRefTable := xt\<rparr>) = outputFlags ctx"
  by (simp_all add: outputFlags_def setE_def updateDictAt_def updatePasswords_def Let_def
        split: option.splits Object.splits)

lemma Read_simps [simp]:
  "Read (setE ctx e) = Read ctx"
  "Read (updateDictAt d k v ctx) = Read ctx"
  "Read (updatePasswords ctx) = Read ctx"
  by (simp_all add: setE_def updateDictAt_def updatePasswords_def Let_def
        split: option.splits Object.splits)

lemma setupEncryption_frame:
  assumes "setupEncryption ext ctx = (err, ctx')"
  shows "outputFlags ctx' = outputFlags ctx \<and> Read ctx' = Read ctx"
  using assms
  by (auto simp add: setupEncryption_def Let_def split: prod.splits if_splits option.splits)

lemma updateOU_frame:
  assumes "updateOU ext d ctx = (err, ctx')"
  shows "outputFlags ctx' = outputFlags ctx \<and> Read ctx' = Read ctx"
  using assms
  by (auto simp add: updateOU_def Let_def split: prod.splits if_splits option.splits)

lemma updateEncryption_frame:
  assumes "updateEncryption ext ctx = (err, ctx')"
  shows "outputFlags ctx' = outputFlags ctx \<and> Read ctx' = Read ctx"
  using assms
  by (auto simp add: updateEncryption_def Let_def dest!: updateOU_frame
        split: sum.splits if_splits option.splits)

text \<open>
  C7. Encryption forces classical output. When \<open>handleEncryption\<close> returns without error and
  leaves \<open>ctx.Encrypt\<close> and \<open>ctx.EncKey\<close> non-nil for an input that did not use xref streams,
  \<open>WriteObjectStream\<close> and \<open>WriteXRefStream\<close> are both false. In every other case, the error
  returns included, the two flags are as they were before the call.
\<close>

theorem handleEncryption_forces_classical_output:
  assumes "handleEncryption ext ctx = (err, ctx')"
  shows "(if err = None \<and> encryptedClassicalInput ctx'
          then outputFlags ctx' = (False, False)
          else outputFlags ctx' = outputFlags ctx)"
proof -
  define stage where "stage =
     (if Mode (Configuration ctx) = ENCRYPT \<or> Mode (Configuration ctx) = DECRYPT
      then (if Mode (Configuration ctx) = DECRYPT
            then (None, ctx\<lparr>XRefTable := (XRefTable ctx)\<lparr>EncKey := None\<rparr>\<rparr>)
            else setupEncryption ext ctx)
      else if UserPWNew (Configuration ctx) \<noteq> None \<or> OwnerPWNew (Configuration ctx) \<noteq> None
              \<or> Mode (Configuration ctx) = ADDPERMISSIONS
      then updateEncryption ext ctx
      else (None, ctx))"
  obtain e1 c1 where s: "stage = (e1, c1)"
    by (cases stage)
  have frame: "outputFlags c1 = outputFlags ctx"
    using s unfolding stage_def
    by (auto split: if_splits dest: setupEncryption_frame updateEncryption_frame)
  have run: "handleEncryption ext ctx =
     (if e1 \<noteq> None then (e1, c1)
      else if Encrypt (XRefTable c1) \<noteq> None \<and> EncKey (XRefTable c1) \<noteq> None
      then (case Read c1 of
              None \<Rightarrow> (Some nilDeref, c1)
            | Some r \<Rightarrow>
               if \<not> UsingXRefStreams r
               then (None, c1\<lparr>Configuration := (Configuration c1)
                              \<lparr>WriteObjectStream := False, WriteXRefStream := False\<rparr>\<rparr>)
               else (None, c1))
      else (None, c1))"
    using s unfolding handleEncryption_def stage_def by simp
  show ?thesis
    using assms frame unfolding run
    by (auto simp add: encryptedClassicalInput_def outputFlags_def
          split: if_splits option.splits)
qed


theorem handleEncryption_forces_classical_output_witness:
  "fst (handleEncryption exampleCollaborators exampleEncryptContext) = None
   \<and> encryptedClassicalInput (snd (handleEncryption exampleCollaborators exampleEncryptContext))
   \<and> outputFlags exampleEncryptContext = (True, True)
   \<and> outputFlags (snd (handleEncryption exampleCollaborators exampleEncryptContext)) = (False, False)"
  using handleEncryption_forces_classical_output
          [of exampleCollaborators exampleEncryptContext
              "fst (handleEncryption exampleCollaborators exampleEncryptContext)"
              "snd (handleEncryption exampleCollaborators exampleEncryptContext)"]
  by (simp add: handleEncryption_def setupEncryption_def setE_def exampleCollaborators_def
        exampleEncryptContext_def exampleContext_def exampleConfiguration_def
        exampleXRefTable_def encryptedClassicalInput_def outputFlags_def Let_def)

subsection \<open>Byte widths and big-endian fields\<close>

lemma drop_bit_8_less: "0 < (i::int) \<Longrightarrow> nat (drop_bit 8 i) < nat i"
  by (simp add: drop_bit_eq_div)

lemma i2_byteCount_nonpos: "i \<le> 0 \<Longrightarrow> i2_byteCount i n = n"
  by (simp add: i2_byteCount.simps)

lemma i2_byteCount_pos: "0 < i \<Longrightarrow> i2_byteCount i n = i2_byteCount (drop_bit 8 i) (n + 1)"
  by (subst i2_byteCount.simps) simp

lemma i2_byteCount_shift: "i2_byteCount i n = n + i2_byteCount i 0"
proof (induction "nat i" arbitrary: i n rule: less_induct)
  case less
  show ?case
  proof (cases "0 < i")
    case True
    note d = drop_bit_8_less [OF True]
    have "i2_byteCount i n = n + 1 + i2_byteCount (drop_bit 8 i) 0"
      using less [OF d, of "n + 1"] by (simp add: i2_byteCount_pos [OF True])
    moreover have "i2_byteCount i 0 = 1 + i2_byteCount (drop_bit 8 i) 0"
      using less [OF d, of 1] by (simp add: i2_byteCount_pos [OF True])
    ultimately show ?thesis by simp
  next
    case False
    then show ?thesis by (simp add: i2_byteCount_nonpos)
  qed
qed

text \<open>The byte count of a positive number is the length of its base-256 representation.\<close>

lemma i2_byteCount_bounds:
  "0 < i \<Longrightarrow> \<exists>k. i2_byteCount i 0 = int (Suc k) \<and> 256 ^ k \<le> i \<and> i < 256 ^ Suc k"
proof (induction "nat i" arbitrary: i rule: less_induct)
  case less
  note pos = \<open>0 < i\<close>
  have step: "i2_byteCount i 0 = 1 + i2_byteCount (drop_bit 8 i) 0"
    using i2_byteCount_shift [of "drop_bit 8 i" 1] by (simp add: i2_byteCount_pos [OF pos])
  show ?case
  proof (cases "0 < drop_bit 8 i")
    case True
    from less.hyps [OF drop_bit_8_less [OF pos] True]
    obtain k where k: "i2_byteCount (drop_bit 8 i) 0 = int (Suc k)"
      "256 ^ k \<le> drop_bit 8 i" "drop_bit 8 i < 256 ^ Suc k"
      by blast
    have "256 ^ Suc k \<le> i" "i < 256 ^ Suc (Suc k)"
      using k(2,3) by (simp_all add: drop_bit_eq_div)
    with k(1) step show ?thesis
      by (intro exI [of _ "Suc k"]) simp
  next
    case False
    then have small: "i < 256"
      using pos by (simp add: drop_bit_eq_div)
    have "i2_byteCount (drop_bit 8 i) 0 = 0"
      using False by (simp add: i2_byteCount_nonpos)
    with step small pos show ?thesis
      by (intro exI [of _ 0]) simp
  qed
qed


lemma and_ff: "(k::int) AND 0xff = k mod 256"
proof -
  have "(0xff::int) = mask 8" by (simp add: mask_eq_exp_minus_1)
  then show ?thesis by (simp only: flip: take_bit_eq_mask) (simp add: take_bit_eq_mod)
qed

lemma uint_low: "uint (word_of_int (k AND 0xff) :: 8 word) = k mod 256"
  by (simp add: and_ff uint_word_of_int)

lemma lowBytes_nonpos: "k \<le> 0 \<Longrightarrow> lowBytes k b j = (b, j)"
  by (simp add: lowBytes.simps)

lemma lowBytes_pos:
  "0 < k \<Longrightarrow> lowBytes k b j = lowBytes (drop_bit 8 k) (b @ [word_of_int (k AND 0xff)]) (j + 1)"
  by (subst lowBytes.simps) simp

lemma lowBytes_bytes:
  "0 \<le> k \<Longrightarrow> \<exists>bs. lowBytes k b j = (b @ bs, j + int (length bs))
                      \<and> int (length bs) = i2_byteCount k 0 \<and> le_value bs = k"
proof (induction "nat k" arbitrary: k b j rule: less_induct)
  case less
  show ?case
  proof (cases "0 < k")
    case True
    define w :: "8 word" where "w = word_of_int (k AND 0xff)"
    have nonneg: "0 \<le> drop_bit 8 k"
      using True by (simp add: drop_bit_eq_div)
    from less.hyps [OF drop_bit_8_less [OF True] nonneg, of "b @ [w]" "j + 1"]
    obtain bs where bs: "lowBytes (drop_bit 8 k) (b @ [w]) (j + 1)
                           = ((b @ [w]) @ bs, j + 1 + int (length bs))"
      "int (length bs) = i2_byteCount (drop_bit 8 k) 0" "le_value bs = drop_bit 8 k"
      by blast
    have cnt: "i2_byteCount k 0 = 1 + i2_byteCount (drop_bit 8 k) 0"
      using i2_byteCount_shift [of "drop_bit 8 k" 1] by (simp add: i2_byteCount_pos [OF True])
    have val: "le_value (w # bs) = k"
      using bs(3) by (simp add: le_value_def w_def uint_low drop_bit_eq_div)
    show ?thesis
      using bs(1,2) cnt val
      by (intro exI [of _ "w # bs"]) (simp add: lowBytes_pos [OF True] w_def)
  next
    case False
    with less.prems have "k = 0" by simp
    then show ?thesis
      by (intro exI [of _ "[]"]) (simp add: lowBytes_nonpos i2_byteCount_nonpos le_value_def)
  qed
qed

lemma lowBytes_negative: "k < 0 \<Longrightarrow> lowBytes k [] 0 = ([], 0)"
  by (simp add: lowBytes_nonpos)

text \<open>The swap loop reverses the slice.\<close>

lemma swapBytes_length [simp]: "length (swapBytes i j b) = length b"
  by (induction i j b rule: swapBytes.induct) (subst swapBytes.simps, simp)

lemma swapBytes_nth:
  "0 \<le> i \<Longrightarrow> j < int (length b) \<Longrightarrow> k < length b \<Longrightarrow>
   swapBytes i j b ! k
     = (if i \<le> int k \<and> int k \<le> j then b ! nat (i + j - int k) else b ! k)"
proof (induction i j b rule: swapBytes.induct)
  case (1 i j b)
  show ?case
  proof (cases "i < j")
    case True
    define b' where "b' = b[nat i := b ! nat j, nat j := b ! nat i]"
    have len: "length b' = length b" by (simp add: b'_def)
    have IH: "swapBytes (i + 1) (j - 1) b' ! k
         = (if i + 1 \<le> int k \<and> int k \<le> j - 1 then b' ! nat (i + 1 + (j - 1) - int k) else b' ! k)"
      using "1.IH" [OF True] "1.prems" len unfolding b'_def by simp
    have unfold: "swapBytes i j b = swapBytes (i + 1) (j - 1) b'"
      using True by (subst swapBytes.simps) (simp add: b'_def)
    show ?thesis
      using True "1.prems" unfolding unfold IH
      by (auto simp add: b'_def nth_list_update nat_eq_iff)
  next
    case False
    have "swapBytes i j b = b"
      using False by (subst swapBytes.simps) simp
    moreover have "i \<le> int k \<and> int k \<le> j \<Longrightarrow> nat (i + j - int k) = k"
      using False by linarith
    ultimately show ?thesis by auto
  qed
qed

lemma swapBytes_rev: "swapBytes 0 (int (length b) - 1) b = rev b"
  by (rule nth_equalityI) (auto simp add: swapBytes_nth rev_nth nat_diff_distrib intro!: arg_cong [of _ _ "nth b"])


lemma be_value_rev: "be_value (rev bs) = le_value bs"
  by (induction bs) (simp_all add: be_value_def le_value_def)

lemma be_value_zeros: "be_value (replicate n 0 @ bs) = be_value bs"
proof -
  have "foldl (\<lambda>a w. a * 256 + uint w) 0 (replicate n (0::8 word)) = 0"
    by (induction n) simp_all
  then show ?thesis by (simp add: be_value_def)
qed

lemma int64ToBuf_nonneg:
  assumes "0 \<le> i"
  shows "\<exists>bs. int64ToBuf i n
               = (if i2_byteCount i 0 < n then replicate (nat (n - i2_byteCount i 0)) 0 @ rev bs
                  else rev bs)
             \<and> int (length bs) = i2_byteCount i 0 \<and> le_value bs = i"
proof -
  from lowBytes_bytes [OF assms, of "[]" 0]
  obtain bs where bs0: "lowBytes i [] 0 = ([] @ bs, 0 + int (length bs))"
    and bs: "int (length bs) = i2_byteCount i 0" "le_value bs = i"
    by blast
  have "int64ToBuf i n
          = (if int (length bs) < n then replicate (nat (n - int (length bs))) 0 @ rev bs
             else rev bs)"
    unfolding int64ToBuf_def bs0 by (simp add: swapBytes_rev)
  then show ?thesis
    using bs by (intro exI [of _ bs]) simp
qed

lemma int64ToBuf_negative: "i < 0 \<Longrightarrow> int64ToBuf i n = replicate (nat n) 0"
  by (simp add: int64ToBuf_def lowBytes_negative swapBytes.simps)

lemma int64ToBuf_value: "0 \<le> i \<Longrightarrow> be_value (int64ToBuf i n) = i"
  using int64ToBuf_nonneg [of i n] by (auto simp add: be_value_zeros be_value_rev)

lemma int64ToBuf_length: "int (length (int64ToBuf i n)) = max n (i2_byteCount i 0)"
proof (cases "0 \<le> i")
  case True
  then show ?thesis
    using int64ToBuf_nonneg [of i n] by auto
next
  case False
  then show ?thesis
    by (simp add: int64ToBuf_negative i2_byteCount_nonpos)
qed

lemma i2_byteCount_fits:
  assumes "i < 256 ^ n"
  shows "i2_byteCount i 0 \<le> int n"
proof (cases "0 < i")
  case True
  from i2_byteCount_bounds [OF True]
  obtain k where k: "i2_byteCount i 0 = int (Suc k)" "256 ^ k \<le> i"
    by blast
  have "(256::int) ^ k < 256 ^ n"
    using k(2) assms by linarith
  then have "k < n"
    by (simp add: power_strict_increasing_iff)
  with k(1) show ?thesis by simp
next
  case False
  then show ?thesis by (simp add: i2_byteCount_nonpos)
qed

lemma i2_byteCount_mono: "i \<le> m \<Longrightarrow> i2_byteCount i 0 \<le> i2_byteCount m 0"
proof (cases "0 < m")
  case True
  assume le: "i \<le> m"
  from i2_byteCount_bounds [OF True]
  obtain k where k: "i2_byteCount m 0 = int (Suc k)" "m < 256 ^ Suc k"
    by blast
  have "i < 256 ^ Suc k" using le k(2) by linarith
  from i2_byteCount_fits [OF this] k(1) show ?thesis by simp
next
  case False
  assume "i \<le> m"
  with False show ?thesis by (simp add: i2_byteCount_nonpos)
qed

lemma i2_byteCount_nonneg: "0 \<le> i2_byteCount i 0"
  using i2_byteCount_mono [of 0 i] i2_byteCount_bounds [of i]
  by (cases "0 < i") (auto simp add: i2_byteCount_nonpos)


lemma map_of_dictUpdate: "map_of (dictUpdate key v d) = (map_of d)(key \<mapsto> v)"
  by (induction d) auto

lemma xRefStreamEntry_fields:
  assumes "xRefStreamEntry ctx i1 i2 i3 i j = Inr s"
  shows "\<exists>t v2 v3. xRefStreamFields ctx j = Some (t, v2, v3)
           \<and> s = int64ToBuf t i1 @ int64ToBuf v2 i2 @ int64ToBuf v3 i3"
  using assms
  by (auto simp add: xRefStreamEntry_def xRefStreamFields_def
        split: option.splits if_splits)

lemma createXRefStream_loop_chunks:
  assumes "createXRefStream_loop ctx i1 i2 i3 keys i buf arr start sz = Inr (buf', rest)"
  shows "\<exists>chunks. buf' = buf @ concat chunks \<and> length chunks = length keys - i
           \<and> (\<forall>k<length chunks. xRefStreamEntry ctx i1 i2 i3 (i + k) (keys ! (i + k)) = Inr (chunks ! k))"
  using assms
proof (induction ctx i1 i2 i3 keys i buf arr start sz rule: createXRefStream_loop.induct)
  case (1 ctx i1 i2 i3 keys i buf arr start sz)
  show ?case
  proof (cases "i < length keys")
    case False
    with "1.prems" show ?thesis
      by (subst (asm) createXRefStream_loop.simps) simp
  next
    case True
    from "1.prems" True obtain s where s: "xRefStreamEntry ctx i1 i2 i3 i (keys ! i) = Inr s"
      by (subst (asm) createXRefStream_loop.simps) (auto split: sum.splits)
    have "\<exists>chunks. buf' = (buf @ s) @ concat chunks \<and> length chunks = length keys - (i + 1)
           \<and> (\<forall>k<length chunks.
                 xRefStreamEntry ctx i1 i2 i3 (i + 1 + k) (keys ! (i + 1 + k)) = Inr (chunks ! k))"
    proof (cases "i > 0 \<and> keys ! i - keys ! (i - 1) > 1")
      case gap: True
      have "createXRefStream_loop ctx i1 i2 i3 keys (i + 1) (buf @ s)
              (arr @ [Integer start, Integer sz]) (keys ! i) 1 = Inr (buf', rest)"
        using "1.prems" True s gap by (subst (asm) createXRefStream_loop.simps) simp
      from "1.IH"(1) [OF True s gap this] show ?thesis .
    next
      case nogap: False
      have "createXRefStream_loop ctx i1 i2 i3 keys (i + 1) (buf @ s) arr start (sz + 1)
              = Inr (buf', rest)"
        using "1.prems" True s nogap by (subst (asm) createXRefStream_loop.simps) auto
      from "1.IH"(2) [OF True s nogap this] show ?thesis .
    qed
    then obtain chunks where c: "buf' = (buf @ s) @ concat chunks"
      "length chunks = length keys - (i + 1)"
      "\<forall>k<length chunks.
          xRefStreamEntry ctx i1 i2 i3 (i + 1 + k) (keys ! (i + 1 + k)) = Inr (chunks ! k)"
      by blast
    have "\<forall>k<length (s # chunks).
            xRefStreamEntry ctx i1 i2 i3 (i + k) (keys ! (i + k)) = Inr ((s # chunks) ! k)"
    proof (intro allI impI)
      fix k assume "k < length (s # chunks)"
      then show "xRefStreamEntry ctx i1 i2 i3 (i + k) (keys ! (i + k)) = Inr ((s # chunks) ! k)"
        using s c(3) by (cases k) auto
    qed
    with c(1,2) True show ?thesis
      by (intro exI [of _ "s # chunks"]) auto
  qed
qed


lemma xRefStreamW_eq:
  "xRefStreamW ctx
     = (1, i2_byteCount (max (Size (XRefTable ctx)) (Write_Offset (Write ctx))) 0, 2)"
  by (simp add: xRefStreamW_def Let_def max_def)

lemma writeXRefStream_parts:
  assumes "writeXRefStream ext tableKeys ctx = Inr out"
  shows "\<exists>indArr. out_startxref out = Write_Offset (Write (out_ctx out))
           \<and> map_of (out_dict out) ''W''
                = Some (Array [Integer 1, Integer (fst (snd (xRefStreamW (out_ctx out)))), Integer 2])
           \<and> createXRefStream tableKeys (out_ctx out) 1 (fst (snd (xRefStreamW (out_ctx out)))) 2
                = Inr (out_content out, indArr)"
  using assms
  by (auto simp add: writeXRefStream_def Let_def xRefStreamW_eq map_of_dictUpdate
        split: sum.splits prod.splits option.splits)

lemma createXRefStream_chunks:
  assumes "createXRefStream tableKeys ctx i1 i2 i3 = Inr (content, indArr)"
  shows "\<exists>chunks. content = concat chunks
           \<and> length chunks = length (writableKeys tableKeys ctx)
           \<and> (\<forall>k<length chunks.
                 xRefStreamEntry ctx i1 i2 i3 k (writableKeys tableKeys ctx ! k) = Inr (chunks ! k))"
proof -
  define keys where "keys = writableKeys tableKeys ctx"
  from assms obtain rest where
    "createXRefStream_loop ctx i1 i2 i3 keys 0 [] [] (keys ! 0) 0 = Inr (content, rest)"
    by (auto simp add: createXRefStream_def Let_def keys_def split: if_splits sum.splits)
  from createXRefStream_loop_chunks [OF this] show ?thesis
    by (simp add: keys_def)
qed

lemma byteWidth_ceil_log256:
  assumes "0 < m"
  shows "i2_byteCount m 0 = ceil_log256 (m + 1)"
proof -
  from i2_byteCount_bounds [OF assms]
  obtain k where k: "i2_byteCount m 0 = int (Suc k)" "256 ^ k \<le> m" "m < 256 ^ Suc k"
    by blast
  have a: "(256::nat) ^ k < nat (m + 1)"
    using k(2) assms by (simp add: nat_less_iff) 
  have b: "nat (m + 1) \<le> (256::nat) ^ (k + 1)"
    using k(3) assms by (simp add: nat_le_iff)
  have "\<lceil>log (real 256) (real (nat (m + 1)))\<rceil> = int k + 1"
    by (rule ceiling_log_nat_eq_if [OF a b]) simp
  moreover have "real (nat (m + 1)) = real_of_int (m + 1)"
    using assms by simp
  ultimately show ?thesis
    using k(1) by (simp add: ceil_log256_def)
qed


text \<open>
  C6 (as amended). The \<open>W\<close> entry of the xref stream dict is \<open>[1, w2, 2]\<close>, where \<open>w2\<close> is the
  number of bytes of the base-256 representation of \<open>m = max(size, currentOffset)\<close>, with
  \<open>currentOffset\<close> the write offset at which the xref stream begins (the offset printed after
  \<open>startxref\<close>): for \<open>m > 0\<close>, \<open>256^(w2-1) \<le> m < 256^w2\<close>, that is \<open>w2 = ceil(log256(m + 1))\<close>. The
  content is the concatenation of one chunk per key; a chunk is the three fields written by
  \<open>int64ToBuf\<close>, each the big-endian bytes of its value, and has exactly \<open>1 + w2 + 2\<close> bytes
  when its second field is below \<open>256^w2\<close> and its third below 65536.
\<close>

theorem writeXRefStream_field_widths:
  assumes "writeXRefStream ext tableKeys ctx = Inr out"
  shows "\<exists>w2 chunks.
           map_of (out_dict out) ''W'' = Some (Array [Integer 1, Integer w2, Integer 2])
         \<and> out_startxref out = Write_Offset (Write (out_ctx out))
         \<and> w2 = i2_byteCount (i2Base (out_ctx out)) 0
         \<and> (0 < i2Base (out_ctx out) \<longrightarrow>
               256 ^ (nat w2 - 1) \<le> i2Base (out_ctx out) \<and> i2Base (out_ctx out) < 256 ^ nat w2
               \<and> w2 = ceil_log256 (i2Base (out_ctx out) + 1))
         \<and> out_content out = concat chunks
         \<and> length chunks = length (writableKeys tableKeys (out_ctx out))
         \<and> (\<forall>k<length chunks. \<exists>t v2 v3.
               xRefStreamFields (out_ctx out) (writableKeys tableKeys (out_ctx out) ! k) = Some (t, v2, v3)
             \<and> chunks ! k = int64ToBuf t 1 @ int64ToBuf v2 w2 @ int64ToBuf v3 2
             \<and> be_value (int64ToBuf t 1) = t
             \<and> (0 \<le> v2 \<longrightarrow> be_value (int64ToBuf v2 w2) = v2)
             \<and> (0 \<le> v3 \<longrightarrow> be_value (int64ToBuf v3 2) = v3)
             \<and> (v2 < 256 ^ nat w2 \<and> v3 < 65536 \<longrightarrow> int (length (chunks ! k)) = 1 + w2 + 2))"
proof -
  define c where "c = out_ctx out"
  define w2 where "w2 = i2_byteCount (i2Base c) 0"
  have w2_nonneg: "0 \<le> w2"
    by (simp add: w2_def i2_byteCount_nonneg)
  have W: "fst (snd (xRefStreamW c)) = w2"
    by (simp add: xRefStreamW_eq w2_def i2Base_def)
  from writeXRefStream_parts [OF assms] obtain indArr where
    parts: "out_startxref out = Write_Offset (Write c)"
      "map_of (out_dict out) ''W'' = Some (Array [Integer 1, Integer w2, Integer 2])"
      "createXRefStream tableKeys c 1 w2 2 = Inr (out_content out, indArr)"
    unfolding c_def [symmetric] W by blast
  from createXRefStream_chunks [OF parts(3)] obtain chunks where
    chunks: "out_content out = concat chunks"
      "length chunks = length (writableKeys tableKeys c)"
      "\<forall>k<length chunks.
          xRefStreamEntry c 1 w2 2 k (writableKeys tableKeys c ! k) = Inr (chunks ! k)"
    by blast
  have bounds: "0 < i2Base c \<longrightarrow>
      256 ^ (nat w2 - 1) \<le> i2Base c \<and> i2Base c < 256 ^ nat w2 \<and> w2 = ceil_log256 (i2Base c + 1)"
  proof
    assume pos: "0 < i2Base c"
    from i2_byteCount_bounds [OF pos] obtain k where
      k: "w2 = int (Suc k)" "256 ^ k \<le> i2Base c" "i2Base c < 256 ^ Suc k"
      unfolding w2_def by blast
    have n: "nat w2 = Suc k"
      unfolding k(1) by (rule nat_int)
    have "w2 = ceil_log256 (i2Base c + 1)"
      using byteWidth_ceil_log256 [OF pos] by (simp add: w2_def)
    with k(2,3) show "256 ^ (nat w2 - 1) \<le> i2Base c \<and> i2Base c < 256 ^ nat w2
                 \<and> w2 = ceil_log256 (i2Base c + 1)"
      unfolding n by simp
  qed
  have entries: "\<forall>k<length chunks. \<exists>t v2 v3.
        xRefStreamFields c (writableKeys tableKeys c ! k) = Some (t, v2, v3)
      \<and> chunks ! k = int64ToBuf t 1 @ int64ToBuf v2 w2 @ int64ToBuf v3 2
      \<and> be_value (int64ToBuf t 1) = t
      \<and> (0 \<le> v2 \<longrightarrow> be_value (int64ToBuf v2 w2) = v2)
      \<and> (0 \<le> v3 \<longrightarrow> be_value (int64ToBuf v3 2) = v3)
      \<and> (v2 < 256 ^ nat w2 \<and> v3 < 65536 \<longrightarrow> int (length (chunks ! k)) = 1 + w2 + 2)"
  proof (intro allI impI)
    fix k assume "k < length chunks"
    with chunks(3) have e: "xRefStreamEntry c 1 w2 2 k (writableKeys tableKeys c ! k) = Inr (chunks ! k)"
      by blast
    from xRefStreamEntry_fields [OF e] obtain t v2 v3 where
      f: "xRefStreamFields c (writableKeys tableKeys c ! k) = Some (t, v2, v3)"
         "chunks ! k = int64ToBuf t 1 @ int64ToBuf v2 w2 @ int64ToBuf v3 2"
      by blast
    have t: "t = 0 \<or> t = 1 \<or> t = 2"
      using f(1) by (auto simp add: xRefStreamFields_def split: option.splits if_splits)
    then have t_val: "be_value (int64ToBuf t 1) = t"
      by (auto simp add: int64ToBuf_value)
    have t_len: "int (length (int64ToBuf t 1)) = 1"
      using t i2_byteCount_fits [of t 1] i2_byteCount_nonneg [of t]
      by (auto simp add: int64ToBuf_length)
    have len: "v2 < 256 ^ nat w2 \<and> v3 < 65536 \<longrightarrow> int (length (chunks ! k)) = 1 + w2 + 2"
    proof
      assume fit: "v2 < 256 ^ nat w2 \<and> v3 < 65536"
      have "i2_byteCount v2 0 \<le> w2"
        using i2_byteCount_fits [of v2 "nat w2"] fit w2_nonneg by simp
      then have l2: "int (length (int64ToBuf v2 w2)) = w2"
        by (simp add: int64ToBuf_length)
      have "i2_byteCount v3 0 \<le> 2"
        using i2_byteCount_fits [of v3 2] fit by simp
      then have l3: "int (length (int64ToBuf v3 2)) = 2"
        by (simp add: int64ToBuf_length)
      show "int (length (chunks ! k)) = 1 + w2 + 2"
        using t_len l2 l3 by (simp add: f(2))
    qed
    show "\<exists>t v2 v3.
        xRefStreamFields c (writableKeys tableKeys c ! k) = Some (t, v2, v3)
      \<and> chunks ! k = int64ToBuf t 1 @ int64ToBuf v2 w2 @ int64ToBuf v3 2
      \<and> be_value (int64ToBuf t 1) = t
      \<and> (0 \<le> v2 \<longrightarrow> be_value (int64ToBuf v2 w2) = v2)
      \<and> (0 \<le> v3 \<longrightarrow> be_value (int64ToBuf v3 2) = v3)
      \<and> (v2 < 256 ^ nat w2 \<and> v3 < 65536 \<longrightarrow> int (length (chunks ! k)) = 1 + w2 + 2)"
      using f t_val len by (intro exI [of _ t] exI [of _ v2] exI [of _ v3]) (simp add: int64ToBuf_value)
  qed
  show ?thesis
    unfolding c_def [symmetric]
    by (intro exI [of _ w2] exI [of _ chunks] conjI)
       (rule parts(1,2) w2_def bounds chunks(1,2) entries)+
qed


lemma int64ToBuf_examples:
  "int64ToBuf 0 1 = [0]" "int64ToBuf 1 1 = [1]" "int64ToBuf 0 3 = [0, 0, 0]"
  "int64ToBuf 15 3 = [0, 0, 15]" "int64ToBuf 65535 2 = [255, 255]" "int64ToBuf 0 2 = [0, 0]"
  "int64ToBuf 65536 2 = [1, 0, 0]"
  by (simp_all add: int64ToBuf_def lowBytes.simps swapBytes.simps drop_bit_eq_div and_ff
        numeral_3_eq_3 numeral_2_eq_2)

lemma exampleXRefStream_run:
  "writeXRefStream exampleCollaborators [2, 0, 1] exampleXRefStreamContext
     = Inr exampleXRefStreamOutput"
  by (simp add: writeXRefStream_def NewXRefStreamDict_def exampleCollaborators_def
        exampleXRefStreamContext_def exampleXRefStreamOutput_def exampleContext_def
        exampleXRefTable_def exampleEntry_def createXRefStream_def writableKeys_def
        createXRefStream_loop.simps xRefStreamEntry_def xRefStreamW_def i2_byteCount.simps
        int64ToBuf_examples drop_bit_eq_div Let_def)

lemma ceil_log256_65536: "ceil_log256 65536 = 2"
proof -
  have "log 256 (256 ^ 2) = real 2" by (rule log_pow_cancel) simp_all
  then show ?thesis by (simp add: ceil_log256_def)
qed


theorem writeXRefStream_field_widths_witness:
  "writeXRefStream exampleCollaborators [2, 0, 1] exampleXRefStreamContext
     = Inr exampleXRefStreamOutput
   \<and> map_of (out_dict exampleXRefStreamOutput) ''W''
       = Some (Array [Integer 1, Integer 3, Integer 2])
   \<and> i2Base (out_ctx exampleXRefStreamOutput) = 65536
   \<and> i2_byteCount 65536 0 = 3
   \<and> out_content exampleXRefStreamOutput = concat [[0, 0, 0, 0, 255, 255], [1, 0, 0, 15, 0, 0]]"
proof -
  from writeXRefStream_field_widths [OF exampleXRefStream_run]
  obtain w2 where "map_of (out_dict exampleXRefStreamOutput) ''W''
                     = Some (Array [Integer 1, Integer w2, Integer 2])"
    and "w2 = i2_byteCount (i2Base (out_ctx exampleXRefStreamOutput)) 0"
    by blast
  then show ?thesis
    using exampleXRefStream_run
    by (simp add: exampleXRefStreamOutput_def exampleXRefStreamContext_def exampleContext_def
          i2Base_def)
qed

text \<open>
  The claim as stated fails. With \<open>size = 3\<close> and the xref stream beginning at offset 65536,
  the code writes \<open>W = [1, 3, 2]\<close> (65536 needs three bytes), while
  \<open>ceil(log256(max(size, currentOffset)))\<close> is 2. And a field that does not fit its width is
  written with all its bytes: a generation number of 65536 makes an entry of seven bytes
  under \<open>W = [1, 3, 2]\<close>.
\<close>

theorem xRefStream_widths_counterexample:
  "writeXRefStream exampleCollaborators [2, 0, 1] exampleXRefStreamContext
     = Inr exampleXRefStreamOutput
   \<and> map_of (out_dict exampleXRefStreamOutput) ''W''
       = Some (Array [Integer 1, Integer 3, Integer 2])
   \<and> spec_W (Size (XRefTable (out_ctx exampleXRefStreamOutput)))
         (out_startxref exampleXRefStreamOutput) = (1, 2, 2)
   \<and> xRefStreamEntry
         (exampleXRefStreamContext
            \<lparr>XRefTable := exampleXRefTable
               \<lparr>Table := [1 \<mapsto> (exampleEntry Null)\<lparr>Generation := Some 65536\<rparr>]\<rparr>\<rparr>)
         1 3 2 0 1 = Inr [1, 0, 0, 15, 1, 0, 0]"
  using exampleXRefStream_run ceil_log256_65536
  by (simp add: exampleXRefStreamOutput_def exampleXRefStreamContext_def exampleContext_def
        exampleXRefTable_def exampleEntry_def spec_W_def xRefStreamEntry_def
        int64ToBuf_examples)

text \<open>
  C9. Page-count consistency check. With the page-tree root dict resolved:
  \<open>optimizeFontAndImages\<close>, and with it \<open>OptimizeXRefTable\<close>, returns an error when the root dict
  has no \<open>Count\<close> entry; it returns the page-count-discrepancy error when \<open>ctx.PageCount\<close> is
  greater than 0 and differs from \<open>Count\<close>; when \<open>ctx.PageCount\<close> is 0 it sets \<open>ctx.PageCount\<close> to
  \<open>Count\<close> and proceeds with the preparation of the optimization environment and the walk.
  The context is unchanged on both errors.
\<close>

theorem optimizeFontAndImages_page_count:
  assumes "Pages ext ctx = (Some (objNr, genNr), None)"
    and "DereferenceDict ext (XRefTable ctx) (IndirectRef objNr genNr) = (Some rootDict, None)"
  shows "(map_of rootDict ''Count'' = None \<longrightarrow>
            (\<exists>msg. optimizeFontAndImages ext walk ctx = (Some (Err msg), ctx)
                  \<and> OptimizeXRefTable ext walk stats ctx = (Some (Err msg), ctx)))
       \<and> (\<forall>c. map_of rootDict ''Count'' = Some (Integer c)
              \<and> 0 < PageCount (XRefTable ctx) \<and> PageCount (XRefTable ctx) \<noteq> c \<longrightarrow>
            optimizeFontAndImages ext walk ctx
              = (Some (Err ''optimizeFontAndImagess: unexpected page root dict pageCount discrepancy''), ctx)
            \<and> OptimizeXRefTable ext walk stats ctx
              = (Some (Err ''optimizeFontAndImagess: unexpected page root dict pageCount discrepancy''), ctx))
       \<and> (\<forall>c. map_of rootDict ''Count'' = Some (Integer c) \<and> PageCount (XRefTable ctx) = 0 \<longrightarrow>
            optimizeFontAndImages ext walk ctx
              = prepareAndWalk walk rootDict (ctx\<lparr>XRefTable := (XRefTable ctx)\<lparr>PageCount := c\<rparr>\<rparr>))"
  using assms
  by (simp add: optimizeFontAndImages_def OptimizeXRefTable_def IntEntry_def)

theorem optimizeFontAndImages_page_count_witness:
  "(\<exists>msg. optimizeFontAndImages exampleCollaborators (\<lambda>c d. (None, c))
             (examplePagesContext 0 [(''Type'', Name ''Pages'')])
           = (Some (Err msg), examplePagesContext 0 [(''Type'', Name ''Pages'')]))
   \<and> (\<exists>msg. optimizeFontAndImages exampleCollaborators (\<lambda>c d. (None, c))
             (examplePagesContext 5 [(''Type'', Name ''Pages''), (''Count'', Integer 3)])
           = (Some (Err msg), examplePagesContext 5 [(''Type'', Name ''Pages''), (''Count'', Integer 3)]))
   \<and> optimizeFontAndImages exampleCollaborators (\<lambda>c d. (None, c))
             (examplePagesContext 0 [(''Type'', Name ''Pages''), (''Count'', Integer 3)])
         = (None, (examplePagesContext 3 [(''Type'', Name ''Pages''), (''Count'', Integer 3)])
                    \<lparr>Optimize := Some (exampleOptimize\<lparr>PageFonts := [None, None, None],
                                                      PageImages := [None, None, None]\<rparr>)\<rparr>)"
  using optimizeFontAndImages_page_count
          [of exampleCollaborators "examplePagesContext 0 [(''Type'', Name ''Pages'')]"
              2 0 "[(''Type'', Name ''Pages'')]" "\<lambda>c d. (None, c)" "\<lambda>c. (None, c)"]
        optimizeFontAndImages_page_count
          [of exampleCollaborators
              "examplePagesContext 5 [(''Type'', Name ''Pages''), (''Count'', Integer 3)]"
              2 0 "[(''Type'', Name ''Pages''), (''Count'', Integer 3)]"
              "\<lambda>c d. (None, c)" "\<lambda>c. (None, c)"]
        optimizeFontAndImages_page_count
          [of exampleCollaborators
              "examplePagesContext 0 [(''Type'', Name ''Pages''), (''Count'', Integer 3)]"
              2 0 "[(''Type'', Name ''Pages''), (''Count'', Integer 3)]"
              "\<lambda>c d. (None, c)" "\<lambda>c. (None, c)"]
  by (auto simp add: exampleCollaborators_def examplePagesContext_def exampleContext_def
        exampleXRefTable_def exampleEntry_def prepareAndWalk_def numeral_3_eq_3)

subsection \<open>Deleting redundant objects\<close>

lemma DeleteObject_other:
  assumes "i \<noteq> j" and "Table xt i = Some e'" and "\<not> Free e'"
  shows "\<exists>e''. Table (DeleteObject j xt) i = Some e'' \<and> \<not> Free e'' \<and> (i \<noteq> 0 \<longrightarrow> e'' = e')"
  using assms by (auto simp add: DeleteObject_def split: option.splits)

lemma survives_DeleteObject:
  assumes "survives i e ctx" and "i \<noteq> j" and "XRefTable ctx' = DeleteObject j (XRefTable ctx)"
  shows "survives i e ctx'"
proof -
  from assms(1) obtain e' where e': "Table (XRefTable ctx) i = Some e'" "\<not> Free e'"
    "i \<noteq> 0 \<longrightarrow> e' = e"
    unfolding survives_def by blast
  from DeleteObject_other [OF assms(2) e'(1,2)] e'(3) show ?thesis
    unfolding survives_def assms(3) by auto
qed

lemma survives_same_table:
  "survives i e ctx \<Longrightarrow> Table (XRefTable ctx') = Table (XRefTable ctx) \<Longrightarrow> survives i e ctx'"
  by (simp add: survives_def)

lemma body_written:
  assumes "Table (XRefTable ctx) i = Some e'" and "\<not> Free e'" and "HasWriteOffset (Write ctx) i"
  shows "deleteRedundantObjects_body ctx i =
           (case Optimize ctx of
              None \<Rightarrow> (Some nilDeref, ctx, [])
            | Some oc \<Rightarrow>
               (None,
                ctx\<lparr>Optimize := Some (oc\<lparr>DuplicateFontObjs := DuplicateFontObjs oc - {i},
                                         DuplicateImageObjs := DuplicateImageObjs oc - {i},
                                         DuplicateInfoObjects := DuplicateInfoObjects oc - {i}\<rparr>)\<rparr>,
                []))"
  using assms by (simp add: deleteRedundantObjects_body_def)

lemma body_unwritten:
  assumes "Table (XRefTable ctx) j = Some entry" and "\<not> Free entry"
    and "\<not> HasWriteOffset (Write ctx) j"
  shows "deleteRedundantObjects_body ctx j =
           (case markLinearizationObject ctx j entry of
              (Some err, ctx) \<Rightarrow> (Some err, ctx, [])
            | (None, ctx) \<Rightarrow> deleteRedundantObject ctx j)"
  using assms by (simp add: deleteRedundantObjects_body_def)

lemma body_skip:
  assumes "Table (XRefTable ctx) j = None \<or> (\<exists>entry. Table (XRefTable ctx) j = Some entry \<and> Free entry)"
  shows "deleteRedundantObjects_body ctx j = (None, ctx, [])"
  using assms by (auto simp add: deleteRedundantObjects_body_def)

text \<open>What one iteration of the loop leaves of the sets and of the write offsets.\<close>

lemma body_frame:
  assumes "deleteRedundantObjects_body ctx j = (err, ctx', cs)"
  shows "Write ctx' = Write ctx \<and> set cs \<subseteq> {j}
         \<and> (Optimize ctx = None \<longrightarrow> Optimize ctx' = None)
         \<and> (\<forall>oc. Optimize ctx = Some oc \<longrightarrow>
               (\<exists>oc'. Optimize ctx' = Some oc'
                  \<and> DuplicateFontObjs oc' \<subseteq> DuplicateFontObjs oc
                  \<and> DuplicateImageObjs oc' \<subseteq> DuplicateImageObjs oc
                  \<and> DuplicateInfoObjects oc' \<subseteq> DuplicateInfoObjects oc))"
proof -
  consider (skip) "Table (XRefTable ctx) j = None \<or> (\<exists>entry. Table (XRefTable ctx) j = Some entry \<and> Free entry)"
    | (written) entry where "Table (XRefTable ctx) j = Some entry" "\<not> Free entry"
        "HasWriteOffset (Write ctx) j"
    | (unwritten) entry where "Table (XRefTable ctx) j = Some entry" "\<not> Free entry"
        "\<not> HasWriteOffset (Write ctx) j"
    by (cases "Table (XRefTable ctx) j") auto
  then show ?thesis
  proof cases
    case skip
    from assms show ?thesis unfolding body_skip [OF skip] by auto
  next
    case written
    from assms show ?thesis unfolding body_written [OF written]
      by (auto split: option.splits)
  next
    case unwritten
    obtain merr mctx where m: "markLinearizationObject ctx j entry = (merr, mctx)"
      by (cases "markLinearizationObject ctx j entry")
    note mf = markLinearizationObject_frame [OF m]
    show ?thesis
    proof (cases merr)
      case (Some x)
      with assms m mf show ?thesis
        unfolding body_unwritten [OF unwritten] by auto
    next
      case None
      with assms m have "deleteRedundantObject mctx j = (err, ctx', cs)"
        unfolding body_unwritten [OF unwritten] by simp
      from deleteRedundantObject_frame [OF this] mf show ?thesis
        by auto
    qed
  qed
qed

lemma body_survives:
  assumes "deleteRedundantObjects_body ctx j = (err, ctx', cs)"
    and "survives i e ctx" and "HasWriteOffset (Write ctx) i"
  shows "survives i e ctx' \<and> i \<notin> set cs"
proof (cases "j = i")
  case True
  from assms(2) obtain e' where e': "Table (XRefTable ctx) i = Some e'" "\<not> Free e'"
    unfolding survives_def by blast
  from assms(1) have "Table (XRefTable ctx') = Table (XRefTable ctx) \<and> cs = []"
    unfolding True body_written [OF e' assms(3)] by (auto split: option.splits)
  with assms(2) show ?thesis
    by (simp add: survives_same_table)
next
  case False
  then have neq: "i \<noteq> j" by simp
  from body_frame [OF assms(1)] False have cs: "i \<notin> set cs"
    by auto
  consider (skip) "Table (XRefTable ctx) j = None \<or> (\<exists>entry. Table (XRefTable ctx) j = Some entry \<and> Free entry)"
    | (written) entry where "Table (XRefTable ctx) j = Some entry" "\<not> Free entry"
        "HasWriteOffset (Write ctx) j"
    | (unwritten) entry where "Table (XRefTable ctx) j = Some entry" "\<not> Free entry"
        "\<not> HasWriteOffset (Write ctx) j"
    by (cases "Table (XRefTable ctx) j") auto
  then have "survives i e ctx'"
  proof cases
    case skip
    from assms(1,2) show ?thesis unfolding body_skip [OF skip] by auto
  next
    case written
    from assms(1) have "Table (XRefTable ctx') = Table (XRefTable ctx)"
      unfolding body_written [OF written] by (auto split: option.splits)
    with assms(2) show ?thesis by (simp add: survives_same_table)
  next
    case unwritten
    obtain merr mctx where m: "markLinearizationObject ctx j entry = (merr, mctx)"
      by (cases "markLinearizationObject ctx j entry")
    from markLinearizationObject_frame [OF m] assms(2) have ms: "survives i e mctx"
      by (simp add: survives_same_table)
    show ?thesis
    proof (cases merr)
      case (Some x)
      with assms(1) m ms show ?thesis
        unfolding body_unwritten [OF unwritten] by auto
    next
      case None
      with assms(1) m have d: "deleteRedundantObject mctx j = (err, ctx', cs)"
        unfolding body_unwritten [OF unwritten] by simp
      define c1 where "c1 = mctx\<lparr>XRefTable := DeleteObject j (XRefTable mctx)\<rparr>"
      have s1: "survives i e c1"
        by (rule survives_DeleteObject [OF ms neq]) (simp add: c1_def)
      from deleteRedundantObject_frame [OF d]
      consider "XRefTable ctx' = XRefTable mctx"
        | "XRefTable ctx' = DeleteObject j (XRefTable mctx)"
        | "XRefTable ctx' = DeleteObject j (XRefTable c1)"
        by (auto simp add: c1_def)
      then show ?thesis
      proof cases
        case 1
        with ms show ?thesis by (simp add: survives_same_table)
      next
        case 2
        from survives_DeleteObject [OF ms neq 2] show ?thesis .
      next
        case 3
        from survives_DeleteObject [OF s1 neq 3] show ?thesis .
      qed
    qed
  qed
  with cs show ?thesis by simp
qed

lemma body_removed:
  assumes "deleteRedundantObjects_body ctx j = (err, ctx', cs)" and "removed i ctx"
  shows "removed i ctx'"
  using body_frame [OF assms(1)] assms(2)
  unfolding removed_def by (cases "Optimize ctx") auto

lemma body_removes:
  assumes "deleteRedundantObjects_body ctx i = (None, ctx', cs)"
    and "survives i e ctx" and "HasWriteOffset (Write ctx) i"
  shows "removed i ctx'"
proof -
  from assms(2) obtain e' where e': "Table (XRefTable ctx) i = Some e'" "\<not> Free e'"
    unfolding survives_def by blast
  from assms(1) show ?thesis
    unfolding body_written [OF e' assms(3)] removed_def
    by (auto split: option.splits)
qed


lemma loop_invariant:
  assumes "deleteRedundantObjects_loop j ctx calls = (err, ctx', calls')"
    and "survives i e ctx" and "HasWriteOffset (Write ctx) i" and "i \<notin> set calls"
  shows "survives i e ctx' \<and> i \<notin> set calls' \<and> HasWriteOffset (Write ctx') i
         \<and> (err = None \<and> ((j \<le> i \<and> i < Size (XRefTable ctx)) \<or> removed i ctx) \<longrightarrow> removed i ctx')"
  using assms
proof (induction j ctx calls rule: deleteRedundantObjects_loop.induct)
  case (1 j ctx calls)
  show ?case
  proof (cases "j < Size (XRefTable ctx)")
    case False
    with "1.prems" show ?thesis
      by (subst (asm) deleteRedundantObjects_loop.simps) auto
  next
    case True
    obtain berr bctx cs where b: "deleteRedundantObjects_body ctx j = (berr, bctx, cs)"
      by (cases "deleteRedundantObjects_body ctx j")
    from body_survives [OF b "1.prems"(2,3)] have bs: "survives i e bctx" "i \<notin> set cs"
      by simp_all
    from body_frame [OF b] "1.prems"(3) have bw: "HasWriteOffset (Write bctx) i"
      by simp
    show ?thesis
    proof (cases berr)
      case (Some x)
      with "1.prems"(1) True b have "err = Some x" "ctx' = bctx" "calls' = calls @ cs"
        by (subst (asm) deleteRedundantObjects_loop.simps, simp)+
      with bs bw "1.prems"(4) show ?thesis by simp
    next
      case None
      with "1.prems"(1) True b
      have rec: "deleteRedundantObjects_loop (j + 1) bctx (calls @ cs) = (err, ctx', calls')"
        by (subst (asm) deleteRedundantObjects_loop.simps) simp
      have nc: "i \<notin> set (calls @ cs)"
        using bs(2) "1.prems"(4) by simp
      have b': "(berr, bctx, cs) = deleteRedundantObjects_body ctx j"
        using b by simp
      from "1.IH" [OF True b' None refl rec bs(1) bw nc]
      have IH: "survives i e ctx'" "i \<notin> set calls'" "HasWriteOffset (Write ctx') i"
        "err = None \<and> ((j + 1 \<le> i \<and> i < Size (XRefTable bctx)) \<or> removed i bctx) \<longrightarrow> removed i ctx'"
        by simp_all
      have sz: "Size (XRefTable bctx) = Size (XRefTable ctx)"
        by (rule deleteRedundantObjects_body_Size [OF b])
      have "removed i ctx'"
        if "err = None" and "(j \<le> i \<and> i < Size (XRefTable ctx)) \<or> removed i ctx"
      proof -
        have "(j + 1 \<le> i \<and> i < Size (XRefTable bctx)) \<or> removed i bctx"
        proof (cases "removed i ctx")
          case True
          from body_removed [OF b this] show ?thesis ..
        next
          case False
          with that(2) have range: "j \<le> i" "i < Size (XRefTable ctx)" by simp_all
          show ?thesis
          proof (cases "j = i")
            case True
            from b None have "deleteRedundantObjects_body ctx i = (None, bctx, cs)"
              by (simp add: True)
            from body_removes [OF this "1.prems"(2,3)] show ?thesis ..
          next
            case False
            with range sz show ?thesis by simp
          qed
        qed
        with IH(4) that(1) show ?thesis by simp
      qed
      with IH(1,2,3) show ?thesis by blast
    qed
  qed
qed

text \<open>
  C1. Deletion safety. For an object number \<open>i\<close> in \<open>[0, Size)\<close> whose entry exists and is
  not Free and that has a write offset, \<open>deleteRedundantObjects\<close> never calls \<open>DeleteObject\<close> on
  \<open>i\<close>: the entry stays in the table, not Free and (for \<open>i \<noteq> 0\<close>) unchanged, and \<open>i\<close> keeps its
  write offset. When the function returns, \<open>i\<close> is in none of \<open>DuplicateFontObjs\<close>,
  \<open>DuplicateImageObjs\<close> and \<open>DuplicateInfoObjects\<close>.
\<close>

theorem deleteRedundantObjects_keeps_written_objects:
  assumes "0 \<le> i" and "i < Size (XRefTable ctx)"
    and "Table (XRefTable ctx) i = Some e" and "\<not> Free e"
    and "HasWriteOffset (Write ctx) i"
    and "deleteRedundantObjects ctx = (err, ctx', calls)"
  shows "i \<notin> set calls
         \<and> (\<exists>e'. Table (XRefTable ctx') i = Some e' \<and> \<not> Free e' \<and> (i \<noteq> 0 \<longrightarrow> e' = e))
         \<and> HasWriteOffset (Write ctx') i
         \<and> (err = None \<longrightarrow>
              (\<forall>oc. Optimize ctx' = Some oc \<longrightarrow>
                 i \<notin> DuplicateFontObjs oc \<and> i \<notin> DuplicateImageObjs oc
                 \<and> i \<notin> DuplicateInfoObjects oc))"
proof (cases "Optimize ctx = None")
  case True
  with assms show ?thesis
    by (auto simp add: deleteRedundantObjects_def)
next
  case False
  with assms(6) have run: "deleteRedundantObjects_loop 0 ctx [] = (err, ctx', calls)"
    by (simp add: deleteRedundantObjects_def)
  have s: "survives i e ctx"
    using assms(3,4) by (simp add: survives_def)
  from loop_invariant [OF run s assms(5)] assms(1,2)
  have "survives i e ctx'" "i \<notin> set calls" "HasWriteOffset (Write ctx') i"
    "err = None \<longrightarrow> removed i ctx'"
    by simp_all
  then show ?thesis
    by (simp add: survives_def removed_def)
qed


lemmas exampleDelete_defs =
  deleteRedundantObjects_def exampleDeleteContext_def exampleContext_def
  exampleXRefTable_def exampleOptimize_def exampleFreeHead_def exampleEntry_def
  deleteRedundantObjects_loop.simps deleteRedundantObjects_body_def
  deleteRedundantObject_def markLinearizationObject_def callDeleteObject_def
  DeleteObject_def HasWriteOffset_def IsDuplicateFontObject_def
  IsDuplicateImageObject_def IsDuplicateInfoObject_def IsLinearizationObject_def
  IsObjectStreamObject_def IsXRefStreamObject_def isStreamDict_def Let_def

theorem deleteRedundantObjects_keeps_written_objects_witness:
  "(0::int) \<le> 1 \<and> 1 < Size (XRefTable (exampleDeleteContext 0))
   \<and> Table (XRefTable (exampleDeleteContext 0)) 1
       = Some (exampleEntry (Dict [(''Type'', Name ''FontDescriptor'')]))
   \<and> \<not> Free (exampleEntry (Dict [(''Type'', Name ''FontDescriptor'')]))
   \<and> HasWriteOffset (Write (exampleDeleteContext 0)) 1
   \<and> fst (deleteRedundantObjects (exampleDeleteContext 0)) = None
   \<and> snd (snd (deleteRedundantObjects (exampleDeleteContext 0))) = [2, 3]
   \<and> 1 \<notin> set (snd (snd (deleteRedundantObjects (exampleDeleteContext 0))))
   \<and> Table (XRefTable (fst (snd (deleteRedundantObjects (exampleDeleteContext 0))))) 1
       = Some (exampleEntry (Dict [(''Type'', Name ''FontDescriptor'')]))
   \<and> Optimize (fst (snd (deleteRedundantObjects (exampleDeleteContext 0))))
       = Some (exampleOptimize\<lparr>DuplicateFontObjs := {2}\<rparr>)"
  using deleteRedundantObjects_keeps_written_objects
          [of 1 "exampleDeleteContext 0" "exampleEntry (Dict [(''Type'', Name ''FontDescriptor'')])"
              "fst (deleteRedundantObjects (exampleDeleteContext 0))"
              "fst (snd (deleteRedundantObjects (exampleDeleteContext 0)))"
              "snd (snd (deleteRedundantObjects (exampleDeleteContext 0)))"]
  by (simp add: exampleDelete_defs)

text \<open>
  C2 (as amended). With the optimize and read contexts present, \<open>deleteRedundantObject\<close> calls
  \<open>DeleteObject(i)\<close> for the font/image-duplicate reason exactly when \<open>ExtractPageNr == 0\<close>
  and \<open>i\<close> is in \<open>DuplicateFontObjs\<close> or \<open>DuplicateImageObjs\<close>: the dedup deletion is suppressed
  when \<open>ExtractPageNr \<noteq> 0\<close>. It calls \<open>DeleteObject(i)\<close> for a linearization object, a
  duplicate Info object, and an object-stream or xref-stream object of the input, whatever
  \<open>ExtractPageNr\<close> is.
\<close>

theorem deleteRedundantObject_calls:
  assumes "Optimize ctx = Some oc" and "Read ctx = Some r"
  shows "\<exists>ctx'. deleteRedundantObject ctx i =
           (None, ctx',
            (if ExtractPageNr (Write ctx) = 0
                \<and> (i \<in> DuplicateFontObjs oc \<or> i \<in> DuplicateImageObjs oc) then [i] else [])
            @ (if i \<in> LinearizationObjs (XRefTable ctx) \<or> i \<in> DuplicateInfoObjects oc
                  \<or> i \<in> ObjectStreams r \<or> i \<in> XRefStreams r then [i] else []))"
  using assms
  by (simp add: deleteRedundantObject_def callDeleteObject_def Let_def
        IsDuplicateFontObject_def IsDuplicateImageObject_def IsDuplicateInfoObject_def
        IsLinearizationObject_def IsObjectStreamObject_def IsXRefStreamObject_def)

theorem deleteRedundantObject_calls_witness:
  "snd (snd (deleteRedundantObject (exampleDeleteContext 1) 2)) = []
   \<and> snd (snd (deleteRedundantObject (exampleDeleteContext 1) 3)) = [3]
   \<and> snd (snd (deleteRedundantObject (exampleDeleteContext 0) 3)) = [3]"
  using deleteRedundantObject_calls
          [of "exampleDeleteContext 1" "exampleOptimize\<lparr>DuplicateFontObjs := {1, 2}\<rparr>"
              "\<lparr>UsingXRefStreams = False, Linearized = False, ObjectStreams = {}, XRefStreams = {}\<rparr>" 2]
        deleteRedundantObject_calls
          [of "exampleDeleteContext 1" "exampleOptimize\<lparr>DuplicateFontObjs := {1, 2}\<rparr>"
              "\<lparr>UsingXRefStreams = False, Linearized = False, ObjectStreams = {}, XRefStreams = {}\<rparr>" 3]
        deleteRedundantObject_calls
          [of "exampleDeleteContext 0" "exampleOptimize\<lparr>DuplicateFontObjs := {1, 2}\<rparr>"
              "\<lparr>UsingXRefStreams = False, Linearized = False, ObjectStreams = {}, XRefStreams = {}\<rparr>" 3]
  by (auto simp add: exampleDeleteContext_def exampleContext_def exampleXRefTable_def
        exampleOptimize_def)

text \<open>
  The claim as stated fails: with \<open>ExtractPageNr == 0\<close>, an object that was not emitted, is
  not Free and is in \<open>DuplicateFontObjs\<close> is deleted, not kept.
\<close>

theorem deleteRedundantObject_dedup_counterexample:
  "ExtractPageNr (Write (exampleDeleteContext 0)) = 0
   \<and> Optimize (exampleDeleteContext 0) = Some (exampleOptimize\<lparr>DuplicateFontObjs := {1, 2}\<rparr>)
   \<and> \<not> HasWriteOffset (Write (exampleDeleteContext 0)) 2
   \<and> Table (XRefTable (exampleDeleteContext 0)) 2 = Some (exampleEntry (Dict [(''Type'', Name ''Font'')]))
   \<and> \<not> Free (exampleEntry (Dict [(''Type'', Name ''Font'')]))
   \<and> snd (snd (deleteRedundantObject (exampleDeleteContext 0) 2)) = [2]
   \<and> Table (XRefTable (fst (snd (deleteRedundantObject (exampleDeleteContext 0) 2)))) 2
       = Some ((exampleEntry (Dict [(''Type'', Name ''Font'')]))\<lparr>Free := True, Offset := Some 0\<rparr>)"
  by (simp add: exampleDelete_defs)

subsection \<open>Fonts and images\<close>

lemma strings_Index_lower: "- 1 \<le> strings_Index s c"
  by (induction s) (auto simp add: Let_def)

lemma strings_Index_absent: "strings_Index s c < 0 \<longleftrightarrow> c \<notin> set s"
  by (induction s) (auto simp add: Let_def)

lemma strings_Index_first:
  "0 \<le> strings_Index s c \<Longrightarrow>
     s = take (nat (strings_Index s c)) s @ c # drop (nat (strings_Index s c + 1)) s
     \<and> c \<notin> set (take (nat (strings_Index s c)) s)
     \<and> int (length (take (nat (strings_Index s c)) s)) = strings_Index s c"
proof (induction s)
  case Nil
  then show ?case by simp
next
  case (Cons x xs)
  show ?case
  proof (cases "x = c")
    case True
    then show ?thesis by simp
  next
    case False
    with Cons.prems have r: "0 \<le> strings_Index xs c"
      by (simp add: Let_def split: if_splits)
    then have eq: "strings_Index (x # xs) c = strings_Index xs c + 1"
      using False by (simp add: Let_def)
    have n: "nat (strings_Index xs c + 1) = Suc (nat (strings_Index xs c))"
      using r by simp
    have n2: "nat (strings_Index xs c + 1 + 1) = Suc (nat (strings_Index xs c + 1))"
      using r by simp
    from Cons.IH [OF r] False show ?thesis
      unfolding eq n n2 by (simp add: n)
  qed
qed

lemma strings_Index_zero: "strings_Index s c = 0 \<longleftrightarrow> s \<noteq> [] \<and> hd s = c"
  using strings_Index_lower [of "tl s" c]
  by (cases s) (auto simp add: Let_def)

lemma subsetPrefix_split:
  "(if 0 < strings_Index fn CHR ''+''
    then fn = fst (subsetPrefix fn) @ CHR ''+'' # snd (subsetPrefix fn)
         \<and> int (length (fst (subsetPrefix fn))) = strings_Index fn CHR ''+''
         \<and> CHR ''+'' \<notin> set (fst (subsetPrefix fn))
    else fst (subsetPrefix fn) = [] \<and> snd (subsetPrefix fn) = fn
         \<and> (CHR ''+'' \<notin> set fn \<or> (fn \<noteq> [] \<and> hd fn = CHR ''+'')))"
proof (cases "0 < strings_Index fn CHR ''+''")
  case True
  then have "0 \<le> strings_Index fn CHR ''+''" by simp
  from strings_Index_first [OF this] True show ?thesis
    by (simp add: subsetPrefix_def Let_def)
next
  case False
  then have "strings_Index fn CHR ''+'' < 0 \<or> strings_Index fn CHR ''+'' = 0"
    by linarith
  then have "CHR ''+'' \<notin> set fn \<or> (fn \<noteq> [] \<and> hd fn = CHR ''+'')"
    by (simp add: strings_Index_absent strings_Index_zero)
  with False show ?thesis
    by (simp add: subsetPrefix_def Let_def)
qed

lemma body_probe:
  assumes "FontObjects oc objNr = None"
    and "Dereference ext xt (IndirectRef objNr genNr) = (Dict fontDict, None)"
    and "Dict_Type fontDict = Some ''Font''"
    and "fontName ext xt fontDict objNr = (fn, None)"
  shows "optimizeFontResourcesDict_body ext xt oc d pageNumber resourceName (IndirectRef objNr genNr)
       = (case handleDuplicateFontObject ext xt oc fontDict (snd (subsetPrefix fn))
                 resourceName objNr pageNumber of
            ((u, Some err), oc1) \<Rightarrow> (Some err, oc1, d)
          | ((None, None), oc1) \<Rightarrow>
              (case registerFont oc1 fontDict (fst (subsetPrefix fn)) (snd (subsetPrefix fn))
                      resourceName objNr pageNumber of
                 (err, oc2) \<Rightarrow> (err, oc2, d))
          | ((Some u, None), oc1) \<Rightarrow> (None, oc1, dictUpdate resourceName (IndirectRef u 0) d))"
  using assms
  by (simp add: optimizeFontResourcesDict_body_def split: prod.splits)

lemma markPageFont_frame:
  assumes "markPageFont oc p n = (err, oc')"
  shows "Fonts oc' = Fonts oc \<and> FontObjects oc' = FontObjects oc
         \<and> DuplicateFonts oc' = DuplicateFonts oc"
  using assms by (auto simp add: markPageFont_def split: if_splits option.splits)

lemma registerFont_result:
  assumes "registerFont oc fontDict prefix key resourceName objNr pageNumber = (err, oc')"
  shows "FontObjects oc' = (FontObjects oc)(objNr \<mapsto>
            \<lparr>ResourceNames = [resourceName], Prefix = prefix, FontName = key, FontDict = fontDict\<rparr>)
         \<and> Fonts oc' = (Fonts oc)(key \<mapsto> (case Fonts oc key of Some ns \<Rightarrow> ns | None \<Rightarrow> []) @ [objNr])
         \<and> DuplicateFonts oc' = DuplicateFonts oc"
  using assms markPageFont_frame [of _ pageNumber objNr err oc']
  by (auto simp add: registerFont_def Let_def split: option.splits)


lemma exampleFont_facts:
  "Dereference exampleCollaborators exampleFontTable (IndirectRef 10 0)
     = (Dict (exampleFontDict ''ABCDEF+Times-Roman''), None)"
  "Dereference exampleCollaborators exampleFontTable (IndirectRef 15 0)
     = (Dict (exampleFontDict ''ABCDEF+Times-Roman''), None)"
  "Dereference exampleCollaborators exampleFontTable (IndirectRef 16 0)
     = (Dict (exampleFontDict ''+Plus''), None)"
  "Dict_Type (exampleFontDict b) = Some ''Font''"
  "fontName exampleCollaborators exampleFontTable (exampleFontDict b) n = (b, None)"
  by (simp_all add: exampleCollaborators_def exampleFontTable_def exampleXRefTable_def
        exampleEntry_def exampleFontDict_def Dict_Type_def Dict_Subtype_def NameEntry_def
        fontName_def)

lemma examplePrefix_facts:
  "subsetPrefix ''ABCDEF+Times-Roman'' = (''ABCDEF'', ''Times-Roman'')"
  "subsetPrefix ''+Plus'' = ([], ''+Plus'')"
  "strings_Index ''ABCDEF+Times-Roman'' CHR ''+'' = 6"
  "strings_Index ''+Plus'' CHR ''+'' = 0"
  by (simp_all add: subsetPrefix_def Let_def)


text \<open>The candidates probed before the one that matches did not match.\<close>

lemma handleDuplicateFontObject_loop_found:
  assumes "handleDuplicateFontObject_loop ext xt oc font resourceName objNr pageNumber ns
             = ((Some u, err), oc1)"
  shows "\<exists>pre post fo oc0.
           ns = pre @ u # post
         \<and> (\<forall>m\<in>set pre. \<exists>fo'. FontObjects oc m = Some fo'
                \<and> equalFontDicts ext (FontDict fo') font xt = (False, None))
         \<and> FontObjects oc u = Some fo
         \<and> equalFontDicts ext (FontDict fo) font xt = (True, None)
         \<and> err = None
         \<and> markPageFont oc pageNumber u = (None, oc0)
         \<and> oc1 = oc0\<lparr>FontObjects := (FontObjects oc0)
                         (u \<mapsto> fo\<lparr>ResourceNames := AddResourceName resourceName (ResourceNames fo)\<rparr>),
                       DuplicateFonts := (DuplicateFonts oc0)(objNr \<mapsto> font)\<rparr>"
  using assms
proof (induction ns)
  case Nil
  then show ?case by simp
next
  case (Cons n ns)
  from Cons.prems obtain fo where fo: "FontObjects oc n = Some fo"
    by (auto split: option.splits)
  from Cons.prems fo obtain ok where ok: "equalFontDicts ext (FontDict fo) font xt = (ok, None)"
    by (auto split: prod.splits option.splits)
  show ?case
  proof (cases ok)
    case True
    from Cons.prems fo ok True obtain oc0 where
      m: "markPageFont oc pageNumber n = (None, oc0)"
      by (auto split: prod.splits option.splits)
    from Cons.prems fo ok True m have
      "u = n" "err = None"
      "oc1 = oc0\<lparr>FontObjects := (FontObjects oc0)
                     (n \<mapsto> fo\<lparr>ResourceNames := AddResourceName resourceName (ResourceNames fo)\<rparr>),
                   DuplicateFonts := (DuplicateFonts oc0)(objNr \<mapsto> font)\<rparr>"
      by auto
    with fo ok True m have
      "n # ns = [] @ u # ns
       \<and> (\<forall>m\<in>set []. \<exists>fo'. FontObjects oc m = Some fo'
              \<and> equalFontDicts ext (FontDict fo') font xt = (False, None))
       \<and> FontObjects oc u = Some fo
       \<and> equalFontDicts ext (FontDict fo) font xt = (True, None)
       \<and> err = None
       \<and> markPageFont oc pageNumber u = (None, oc0)
       \<and> oc1 = oc0\<lparr>FontObjects := (FontObjects oc0)
                       (u \<mapsto> fo\<lparr>ResourceNames := AddResourceName resourceName (ResourceNames fo)\<rparr>),
                     DuplicateFonts := (DuplicateFonts oc0)(objNr \<mapsto> font)\<rparr>"
      by simp
    then show ?thesis
      by blast
  next
    case False
    with Cons.prems fo ok have
      "handleDuplicateFontObject_loop ext xt oc font resourceName objNr pageNumber ns
         = ((Some u, err), oc1)"
      by simp
    from Cons.IH [OF this] obtain pre post fo1 oc0 where
      IH: "ns = pre @ u # post"
        "\<forall>m\<in>set pre. \<exists>fo'. FontObjects oc m = Some fo'
            \<and> equalFontDicts ext (FontDict fo') font xt = (False, None)"
        "FontObjects oc u = Some fo1"
        "equalFontDicts ext (FontDict fo1) font xt = (True, None)"
        "err = None"
        "markPageFont oc pageNumber u = (None, oc0)"
        "oc1 = oc0\<lparr>FontObjects := (FontObjects oc0)
                       (u \<mapsto> fo1\<lparr>ResourceNames := AddResourceName resourceName (ResourceNames fo1)\<rparr>),
                     DuplicateFonts := (DuplicateFonts oc0)(objNr \<mapsto> font)\<rparr>"
      by blast
    have "\<forall>m\<in>set (n # pre). \<exists>fo'. FontObjects oc m = Some fo'
            \<and> equalFontDicts ext (FontDict fo') font xt = (False, None)"
      using IH(2) fo ok False by simp
    moreover have "n # ns = (n # pre) @ u # post"
      using IH(1) by simp
    ultimately show ?thesis
      using IH(3-7) by blast
  qed
qed

lemma handleDuplicateFontObject_loop_not_found:
  assumes "handleDuplicateFontObject_loop ext xt oc font resourceName objNr pageNumber ns
             = ((None, err), oc1)"
  shows "oc1 = oc"
  using assms
  by (induction ns)
     (auto simp add: markPageFont_def split: option.splits prod.splits if_splits)


lemma handleDuplicateFontObject_found:
  assumes "handleDuplicateFontObject ext xt oc font key resourceName objNr pageNumber
             = ((Some u, err), oc1)"
  shows "\<exists>pre post fo.
           Fonts oc key = Some (pre @ u # post)
         \<and> (\<forall>m\<in>set pre. \<exists>fo'. FontObjects oc m = Some fo'
                \<and> equalFontDicts ext (FontDict fo') font xt = (False, None))
         \<and> FontObjects oc u = Some fo
         \<and> equalFontDicts ext (FontDict fo) font xt = (True, None)
         \<and> err = None
         \<and> Fonts oc1 = Fonts oc
         \<and> FontObjects oc1 = (FontObjects oc)
              (u \<mapsto> fo\<lparr>ResourceNames := AddResourceName resourceName (ResourceNames fo)\<rparr>)
         \<and> DuplicateFonts oc1 = (DuplicateFonts oc)(objNr \<mapsto> font)"
proof -
  from assms obtain ns where ns: "Fonts oc key = Some ns"
    and loop: "handleDuplicateFontObject_loop ext xt oc font resourceName objNr pageNumber ns
                 = ((Some u, err), oc1)"
    by (auto simp add: handleDuplicateFontObject_def split: option.splits if_splits)
  from handleDuplicateFontObject_loop_found [OF loop] obtain pre post fo oc0 where
    f: "ns = pre @ u # post"
      "\<forall>m\<in>set pre. \<exists>fo'. FontObjects oc m = Some fo'
          \<and> equalFontDicts ext (FontDict fo') font xt = (False, None)"
      "FontObjects oc u = Some fo"
      "equalFontDicts ext (FontDict fo) font xt = (True, None)"
      "err = None"
      "markPageFont oc pageNumber u = (None, oc0)"
      "oc1 = oc0\<lparr>FontObjects := (FontObjects oc0)
                     (u \<mapsto> fo\<lparr>ResourceNames := AddResourceName resourceName (ResourceNames fo)\<rparr>),
                   DuplicateFonts := (DuplicateFonts oc0)(objNr \<mapsto> font)\<rparr>"
    by blast
  note mf = markPageFont_frame [OF f(6)]
  have "Fonts oc1 = Fonts oc"
    "FontObjects oc1 = (FontObjects oc)
        (u \<mapsto> fo\<lparr>ResourceNames := AddResourceName resourceName (ResourceNames fo)\<rparr>)"
    "DuplicateFonts oc1 = (DuplicateFonts oc)(objNr \<mapsto> font)"
    using mf by (simp_all add: f(7))
  with ns f(1-5) show ?thesis
    by blast
qed

lemma handleDuplicateFontObject_not_found:
  assumes "handleDuplicateFontObject ext xt oc font key resourceName objNr pageNumber
             = ((None, err), oc1)"
  shows "oc1 = oc"
  using assms handleDuplicateFontObject_loop_not_found [of ext xt oc font resourceName objNr pageNumber]
  by (auto simp add: handleDuplicateFontObject_def split: option.splits if_splits)

lemma AddResourceName_member: "resourceName \<in> set (AddResourceName resourceName names)"
  by (simp add: AddResourceName_def)

text \<open>
  C3. Dedup soundness and rewrite. \<open>DuplicateFonts\<close> is written only where
  \<open>handleDuplicateFontObject\<close> finds a match. Whenever it records \<open>objNr\<close>, the object it returns
  is listed under the same bare name, is a registered font object (of that name, the
  registry being consistent), and \<open>equalFontDicts\<close> has returned true for it against the font
  dict of \<open>objNr\<close>; the resource name is added to its resource names, and the entry of the
  font resources dict under the resource name is rewritten to the indirect reference with
  the canonical object number and generation 0.
\<close>

theorem duplicate_font_sound_and_rewritten:
  assumes "FontObjects oc objNr = None"
    and "Dereference ext xt (IndirectRef objNr genNr) = (Dict fontDict, None)"
    and "Dict_Type fontDict = Some ''Font''"
    and "fontName ext xt fontDict objNr = (fn, None)"
    and "handleDuplicateFontObject ext xt oc fontDict (snd (subsetPrefix fn)) resourceName
           objNr pageNumber = ((res, err), oc1)"
  shows "(res = None \<longrightarrow> DuplicateFonts oc1 = DuplicateFonts oc)
       \<and> (\<forall>u. res = Some u \<longrightarrow>
            (\<exists>ns fo.
               Fonts oc (snd (subsetPrefix fn)) = Some ns \<and> u \<in> set ns
             \<and> FontObjects oc u = Some fo
             \<and> (fontsRegistered oc \<longrightarrow> FontName fo = snd (subsetPrefix fn))
             \<and> equalFontDicts ext (FontDict fo) fontDict xt = (True, None)
             \<and> DuplicateFonts oc1 = (DuplicateFonts oc)(objNr \<mapsto> fontDict)
             \<and> FontObjects oc1 u
                 = Some (fo\<lparr>ResourceNames := AddResourceName resourceName (ResourceNames fo)\<rparr>)
             \<and> resourceName \<in> set (AddResourceName resourceName (ResourceNames fo))
             \<and> optimizeFontResourcesDict_body ext xt oc d pageNumber resourceName
                  (IndirectRef objNr genNr)
                 = (None, oc1, dictUpdate resourceName (IndirectRef u 0) d)
             \<and> map_of (dictUpdate resourceName (IndirectRef u 0) d) resourceName
                 = Some (IndirectRef u 0)))"
proof (intro conjI allI impI)
  assume "res = None"
  with assms(5) handleDuplicateFontObject_not_found show "DuplicateFonts oc1 = DuplicateFonts oc"
    by blast
next
  fix u assume u: "res = Some u"
  from handleDuplicateFontObject_found [OF assms(5) [unfolded u]] obtain pre post fo where
    f: "Fonts oc (snd (subsetPrefix fn)) = Some (pre @ u # post)"
      "FontObjects oc u = Some fo"
      "equalFontDicts ext (FontDict fo) fontDict xt = (True, None)"
      "err = None"
      "FontObjects oc1 = (FontObjects oc)
          (u \<mapsto> fo\<lparr>ResourceNames := AddResourceName resourceName (ResourceNames fo)\<rparr>)"
      "DuplicateFonts oc1 = (DuplicateFonts oc)(objNr \<mapsto> fontDict)"
    by blast
  have name: "fontsRegistered oc \<longrightarrow> FontName fo = snd (subsetPrefix fn)"
    using f(1,2) unfolding fontsRegistered_def by fastforce
  have body: "optimizeFontResourcesDict_body ext xt oc d pageNumber resourceName
                (IndirectRef objNr genNr)
              = (None, oc1, dictUpdate resourceName (IndirectRef u 0) d)"
    using assms(5) u f(4) by (simp add: body_probe [OF assms(1-4)])
  have "u \<in> set (pre @ u # post)" by simp
  with f name body show "\<exists>ns fo.
               Fonts oc (snd (subsetPrefix fn)) = Some ns \<and> u \<in> set ns
             \<and> FontObjects oc u = Some fo
             \<and> (fontsRegistered oc \<longrightarrow> FontName fo = snd (subsetPrefix fn))
             \<and> equalFontDicts ext (FontDict fo) fontDict xt = (True, None)
             \<and> DuplicateFonts oc1 = (DuplicateFonts oc)(objNr \<mapsto> fontDict)
             \<and> FontObjects oc1 u
                 = Some (fo\<lparr>ResourceNames := AddResourceName resourceName (ResourceNames fo)\<rparr>)
             \<and> resourceName \<in> set (AddResourceName resourceName (ResourceNames fo))
             \<and> optimizeFontResourcesDict_body ext xt oc d pageNumber resourceName
                  (IndirectRef objNr genNr)
                 = (None, oc1, dictUpdate resourceName (IndirectRef u 0) d)
             \<and> map_of (dictUpdate resourceName (IndirectRef u 0) d) resourceName
                 = Some (IndirectRef u 0)"
    by (intro exI [of _ "pre @ u # post"] exI [of _ fo])
       (simp add: AddResourceName_member map_of_dictUpdate)
qed


lemma body_no_ref:
  assumes "\<nexists>objNr genNr. v = IndirectRef objNr genNr"
  shows "optimizeFontResourcesDict_body ext xt oc d pageNumber resourceName v
           = (Some (Err ''optimizeFontResourcesDict: missing indirect object ref for Font''), oc, d)"
  using assms by (cases v) (simp_all add: optimizeFontResourcesDict_body_def)

text \<open>Every object number listed under a name is registered with that name, and stays so.\<close>

lemma fontsRegistered_body:
  assumes "optimizeFontResourcesDict_body ext xt oc d pageNumber resourceName v = (err, oc', d')"
    and "fontsRegistered oc"
  shows "fontsRegistered oc'"
proof -
  have frame: "fontsRegistered oc2"
    if "Fonts oc2 = Fonts oc" "FontObjects oc2 = FontObjects oc" for oc2
    using assms(2) that by (simp add: fontsRegistered_def)
  consider (same) "Fonts oc' = Fonts oc" "FontObjects oc' = FontObjects oc"
    | (found) u fo where "Fonts oc' = Fonts oc" "FontObjects oc u = Some fo"
        "FontObjects oc' = (FontObjects oc)
           (u \<mapsto> fo\<lparr>ResourceNames := AddResourceName resourceName (ResourceNames fo)\<rparr>)"
    | (registered) objNr fontDict prefix key where "FontObjects oc objNr = None"
        "FontObjects oc' = (FontObjects oc)(objNr \<mapsto>
            \<lparr>ResourceNames = [resourceName], Prefix = prefix, FontName = key, FontDict = fontDict\<rparr>)"
        "Fonts oc' = (Fonts oc)(key \<mapsto> (case Fonts oc key of Some ns \<Rightarrow> ns | None \<Rightarrow> []) @ [objNr])"
  proof (cases "\<exists>objNr genNr. v = IndirectRef objNr genNr")
    case False
    from assms(1) have "oc' = oc"
      unfolding body_no_ref [OF False] by simp
    with same show ?thesis by simp
  next
    case True
    then obtain objNr genNr where IndirectRef: "v = IndirectRef objNr genNr"
      by blast
    show ?thesis
    proof (cases "FontObjects oc objNr")
      case (Some a)
      with assms(1) IndirectRef same show ?thesis
        by (auto simp add: optimizeFontResourcesDict_body_def split: prod.splits
              dest!: markPageFont_frame)
    next
      case None
      obtain obj derr where de: "Dereference ext xt v = (obj, derr)"
        by (cases "Dereference ext xt v")
      show ?thesis
      proof (cases "\<exists>fontDict fn. derr = None \<and> obj = Dict fontDict
                      \<and> Dict_Type fontDict = Some ''Font''
                      \<and> fontName ext xt fontDict objNr = (fn, None)")
        case nf: False
        with assms(1) IndirectRef None de have "oc' = oc"
          by (auto simp add: optimizeFontResourcesDict_body_def
                split: prod.splits option.splits Object.splits if_splits)
        with same show ?thesis by simp
      next
        case fd: True
        then obtain fontDict fn where t: "Dereference ext xt (IndirectRef objNr genNr) = (Dict fontDict, None)"
          "Dict_Type fontDict = Some ''Font''" "fontName ext xt fontDict objNr = (fn, None)"
          using de IndirectRef by auto
        obtain res herr oc1 where h: "handleDuplicateFontObject ext xt oc fontDict
            (snd (subsetPrefix fn)) resourceName objNr pageNumber = ((res, herr), oc1)"
          by (metis surj_pair)
        note b = assms(1) [unfolded IndirectRef body_probe [OF None t] h]
        show ?thesis
        proof (cases res)
          case (Some u)
          from handleDuplicateFontObject_found [OF h [unfolded Some]] obtain fo where
            "Fonts oc1 = Fonts oc" "FontObjects oc u = Some fo" "herr = None"
            "FontObjects oc1 = (FontObjects oc)
               (u \<mapsto> fo\<lparr>ResourceNames := AddResourceName resourceName (ResourceNames fo)\<rparr>)"
            by blast
          with b Some found show ?thesis by simp
        next
          case rnone: None
          from handleDuplicateFontObject_not_found [OF h [unfolded rnone]] have oc1: "oc1 = oc" .
          show ?thesis
          proof (cases herr)
            case (Some e)
            with b rnone oc1 same show ?thesis by simp
          next
            case hnone: None
            obtain rerr oc2 where r: "registerFont oc fontDict (fst (subsetPrefix fn))
                (snd (subsetPrefix fn)) resourceName objNr pageNumber = (rerr, oc2)"
              by (cases "registerFont oc fontDict (fst (subsetPrefix fn))
                (snd (subsetPrefix fn)) resourceName objNr pageNumber")
            from b rnone hnone oc1 r have "oc' = oc2" by simp
            with registerFont_result [OF r] None registered show ?thesis
              by simp
          qed
        qed
      qed
    qed
  qed
  then show ?thesis
  proof cases
    case same
    then show ?thesis by (rule frame)
  next
    case found
    show ?thesis
      unfolding fontsRegistered_def
    proof (intro allI impI)
      fix name ns m
      assume "Fonts oc' name = Some ns \<and> m \<in> set ns"
      with found(1) assms(2) obtain fo0 where
        fo0: "FontObjects oc m = Some fo0" "FontName fo0 = name"
        unfolding fontsRegistered_def by fastforce
      show "\<exists>fo. FontObjects oc' m = Some fo \<and> FontName fo = name"
      proof (cases "m = u")
        case True
        with fo0 found(2,3) show ?thesis by simp
      next
        case False
        with fo0 found(3) show ?thesis by simp
      qed
    qed
  next
    case registered
    show ?thesis
      unfolding fontsRegistered_def
    proof (intro allI impI)
      fix name ns u
      assume a: "Fonts oc' name = Some ns \<and> u \<in> set ns"
      show "\<exists>fo. FontObjects oc' u = Some fo \<and> FontName fo = name"
      proof (cases "u = objNr")
        case True
        have "name = key"
        proof (rule ccontr)
          assume "name \<noteq> key"
          with a registered(3) have "Fonts oc name = Some ns" by simp
          with a assms(2) True registered(1) show False
            unfolding fontsRegistered_def by fastforce
        qed
        with True registered(2) show ?thesis by simp
      next
        case False
        have "\<exists>ns0. Fonts oc name = Some ns0 \<and> u \<in> set ns0"
          using a registered(3) False by (auto split: if_splits option.splits)
        with assms(2) False registered(2) show ?thesis
          unfolding fontsRegistered_def by fastforce
      qed
    qed
  qed
qed


lemma exampleRegistered_probe:
  "handleDuplicateFontObject exampleCollaborators exampleFontTable exampleRegisteredOptimize
     (exampleFontDict ''ABCDEF+Times-Roman'') ''Times-Roman'' ''F2'' 15 0
   = ((Some 10, None),
      exampleRegisteredOptimize
        \<lparr>PageFonts := [Some {10}],
         FontObjects := [10 \<mapsto> \<lparr>ResourceNames = [''F1'', ''F2''], Prefix = ''ABCDEF'',
                                   FontName = ''Times-Roman'',
                                   FontDict = exampleFontDict ''ABCDEF+Times-Roman''\<rparr>],
         DuplicateFonts := [15 \<mapsto> exampleFontDict ''ABCDEF+Times-Roman'']\<rparr>)"
  by (simp add: handleDuplicateFontObject_def exampleRegisteredOptimize_def
        examplePageOptimize_def exampleOptimize_def exampleCollaborators_def
        markPageFont_def pageInRange_def AddResourceName_def)

theorem duplicate_font_sound_and_rewritten_witness:
  "FontObjects exampleRegisteredOptimize 15 = None
   \<and> Dereference exampleCollaborators exampleFontTable (IndirectRef 15 0)
       = (Dict (exampleFontDict ''ABCDEF+Times-Roman''), None)
   \<and> fontsRegistered exampleRegisteredOptimize
   \<and> fst (fst (handleDuplicateFontObject exampleCollaborators exampleFontTable
                  exampleRegisteredOptimize (exampleFontDict ''ABCDEF+Times-Roman'')
                  ''Times-Roman'' ''F2'' 15 0)) = Some 10
   \<and> Fonts exampleRegisteredOptimize ''Times-Roman'' = Some [10]
   \<and> equalFontDicts exampleCollaborators (exampleFontDict ''ABCDEF+Times-Roman'')
        (exampleFontDict ''ABCDEF+Times-Roman'') exampleFontTable = (True, None)
   \<and> (case optimizeFontResourcesDict_body exampleCollaborators exampleFontTable
              exampleRegisteredOptimize [(''F2'', IndirectRef 15 0)] 0 ''F2'' (IndirectRef 15 0) of
         (err, oc', d') \<Rightarrow>
           err = None \<and> d' = [(''F2'', IndirectRef 10 0)]
           \<and> DuplicateFonts oc' 15 = Some (exampleFontDict ''ABCDEF+Times-Roman'')
           \<and> map_option ResourceNames (FontObjects oc' 10) = Some [''F1'', ''F2''])"
proof -
  have none: "FontObjects exampleRegisteredOptimize 15 = None"
    by (simp add: exampleRegisteredOptimize_def)
  have reg: "fontsRegistered exampleRegisteredOptimize"
    by (auto simp add: fontsRegistered_def exampleRegisteredOptimize_def split: if_splits)
  have probe: "handleDuplicateFontObject exampleCollaborators exampleFontTable
      exampleRegisteredOptimize (exampleFontDict ''ABCDEF+Times-Roman'')
      (snd (subsetPrefix ''ABCDEF+Times-Roman'')) ''F2'' 15 0
    = ((Some 10, None), snd (handleDuplicateFontObject exampleCollaborators exampleFontTable
      exampleRegisteredOptimize (exampleFontDict ''ABCDEF+Times-Roman'')
      ''Times-Roman'' ''F2'' 15 0))"
    by (simp add: examplePrefix_facts exampleRegistered_probe)
  from duplicate_font_sound_and_rewritten
         [OF none exampleFont_facts(2) exampleFont_facts(4) exampleFont_facts(5) probe,
          of "[(''F2'', IndirectRef 15 0)]"]
  have body: "optimizeFontResourcesDict_body exampleCollaborators exampleFontTable
                exampleRegisteredOptimize [(''F2'', IndirectRef 15 0)] 0 ''F2'' (IndirectRef 15 0)
              = (None, snd (handleDuplicateFontObject exampleCollaborators exampleFontTable
                   exampleRegisteredOptimize (exampleFontDict ''ABCDEF+Times-Roman'')
                   ''Times-Roman'' ''F2'' 15 0),
                 dictUpdate ''F2'' (IndirectRef 10 0) [(''F2'', IndirectRef 15 0)])"
    by blast
  show ?thesis
    unfolding body
    using none reg exampleFont_facts(2)
    by (simp add: exampleRegistered_probe)
       (simp add: exampleRegisteredOptimize_def exampleCollaborators_def)
qed


text \<open>
  C5 (as amended). Subset-prefix normalization. For a font name \<open>fn\<close> extracted for a font
  that is not yet registered: when the first \<open>+\<close> of \<open>fn\<close> is at an index \<open>i > 0\<close>, the prefix is
  \<open>fn[0..i)\<close>, of whatever length, and the bare name is \<open>fn[i+1..)\<close>; when \<open>+\<close> is absent or at
  index 0, the prefix is empty and the bare name is the whole name. The bare name is the key
  of the duplicate probe. When the probe finds no duplicate, the font object registered for
  the font has the prefix as its \<open>Prefix\<close> and the bare name as its \<open>FontName\<close>, and is listed
  under the bare name. When the probe finds a duplicate, no font object is registered for
  the font: \<open>FontObjects\<close> changes only in the resource names of the canonical object, and the
  prefix is recorded nowhere.
\<close>

theorem subset_prefix_normalization:
  assumes "FontObjects oc objNr = None"
    and "Dereference ext xt (IndirectRef objNr genNr) = (Dict fontDict, None)"
    and "Dict_Type fontDict = Some ''Font''"
    and "fontName ext xt fontDict objNr = (fn, None)"
  shows "\<exists>prefix key.
           (if 0 < strings_Index fn CHR ''+''
            then fn = prefix @ CHR ''+'' # key
                 \<and> int (length prefix) = strings_Index fn CHR ''+'' \<and> CHR ''+'' \<notin> set prefix
            else prefix = [] \<and> key = fn
                 \<and> (CHR ''+'' \<notin> set fn \<or> (fn \<noteq> [] \<and> hd fn = CHR ''+'')))
         \<and> optimizeFontResourcesDict_body ext xt oc d pageNumber resourceName
              (IndirectRef objNr genNr)
            = (case handleDuplicateFontObject ext xt oc fontDict key resourceName objNr pageNumber of
                 ((u, Some err), oc1) \<Rightarrow> (Some err, oc1, d)
               | ((None, None), oc1) \<Rightarrow>
                   (case registerFont oc1 fontDict prefix key resourceName objNr pageNumber of
                      (err, oc2) \<Rightarrow> (err, oc2, d))
               | ((Some u, None), oc1) \<Rightarrow> (None, oc1, dictUpdate resourceName (IndirectRef u 0) d))
         \<and> (\<forall>oc1 err oc2.
               registerFont oc1 fontDict prefix key resourceName objNr pageNumber = (err, oc2) \<longrightarrow>
               FontObjects oc2 objNr
                 = Some \<lparr>ResourceNames = [resourceName], Prefix = prefix, FontName = key,
                         FontDict = fontDict\<rparr>
               \<and> (\<exists>ns. Fonts oc2 key = Some (ns @ [objNr])))
         \<and> (\<forall>u err oc1.
               handleDuplicateFontObject ext xt oc fontDict key resourceName objNr pageNumber
                 = ((Some u, err), oc1) \<longrightarrow>
               FontObjects oc1 objNr = None
               \<and> Fonts oc1 = Fonts oc
               \<and> (\<exists>fo. FontObjects oc u = Some fo
                     \<and> FontObjects oc1 = (FontObjects oc)
                          (u \<mapsto> fo\<lparr>ResourceNames := AddResourceName resourceName (ResourceNames fo)\<rparr>)))"
proof -
  have split: "if 0 < strings_Index fn CHR ''+''
        then fn = fst (subsetPrefix fn) @ CHR ''+'' # snd (subsetPrefix fn)
             \<and> int (length (fst (subsetPrefix fn))) = strings_Index fn CHR ''+''
             \<and> CHR ''+'' \<notin> set (fst (subsetPrefix fn))
        else fst (subsetPrefix fn) = [] \<and> snd (subsetPrefix fn) = fn
             \<and> (CHR ''+'' \<notin> set fn \<or> (fn \<noteq> [] \<and> hd fn = CHR ''+''))"
    by (rule subsetPrefix_split)
  have probe: "optimizeFontResourcesDict_body ext xt oc d pageNumber resourceName (IndirectRef objNr genNr)
       = (case handleDuplicateFontObject ext xt oc fontDict (snd (subsetPrefix fn))
                 resourceName objNr pageNumber of
            ((u, Some err), oc1) \<Rightarrow> (Some err, oc1, d)
          | ((None, None), oc1) \<Rightarrow>
              (case registerFont oc1 fontDict (fst (subsetPrefix fn)) (snd (subsetPrefix fn))
                      resourceName objNr pageNumber of
                 (err, oc2) \<Rightarrow> (err, oc2, d))
          | ((Some u, None), oc1) \<Rightarrow> (None, oc1, dictUpdate resourceName (IndirectRef u 0) d))"
    by (rule body_probe [OF assms])
  have reg: "\<forall>oc1 err oc2.
          registerFont oc1 fontDict (fst (subsetPrefix fn)) (snd (subsetPrefix fn))
            resourceName objNr pageNumber = (err, oc2) \<longrightarrow>
          FontObjects oc2 objNr
            = Some \<lparr>ResourceNames = [resourceName], Prefix = fst (subsetPrefix fn),
                    FontName = snd (subsetPrefix fn), FontDict = fontDict\<rparr>
          \<and> (\<exists>ns. Fonts oc2 (snd (subsetPrefix fn)) = Some (ns @ [objNr]))"
    by (auto dest!: registerFont_result)
  have dup: "\<forall>u err oc1.
          handleDuplicateFontObject ext xt oc fontDict (snd (subsetPrefix fn)) resourceName
            objNr pageNumber = ((Some u, err), oc1) \<longrightarrow>
          FontObjects oc1 objNr = None
          \<and> Fonts oc1 = Fonts oc
          \<and> (\<exists>fo. FontObjects oc u = Some fo
                \<and> FontObjects oc1 = (FontObjects oc)
                     (u \<mapsto> fo\<lparr>ResourceNames := AddResourceName resourceName (ResourceNames fo)\<rparr>))"
  proof (intro allI impI)
    fix u err oc1
    assume "handleDuplicateFontObject ext xt oc fontDict (snd (subsetPrefix fn)) resourceName
              objNr pageNumber = ((Some u, err), oc1)"
    from handleDuplicateFontObject_found [OF this] obtain fo where
      f: "FontObjects oc u = Some fo" "Fonts oc1 = Fonts oc"
        "FontObjects oc1 = (FontObjects oc)
           (u \<mapsto> fo\<lparr>ResourceNames := AddResourceName resourceName (ResourceNames fo)\<rparr>)"
      by blast
    from f(1) assms(1) have "u \<noteq> objNr"
      by auto
    with f assms(1) have "FontObjects oc1 objNr = None"
      by simp
    with f show "FontObjects oc1 objNr = None
          \<and> Fonts oc1 = Fonts oc
          \<and> (\<exists>fo. FontObjects oc u = Some fo
                \<and> FontObjects oc1 = (FontObjects oc)
                     (u \<mapsto> fo\<lparr>ResourceNames := AddResourceName resourceName (ResourceNames fo)\<rparr>))"
      by blast
  qed
  show ?thesis
    by (rule exI [of _ "fst (subsetPrefix fn)"], rule exI [of _ "snd (subsetPrefix fn)"])
       (intro conjI split probe reg dup)
qed

lemma exampleRegistered_body:
  "optimizeFontResourcesDict_body exampleCollaborators exampleFontTable
     exampleRegisteredOptimize d 0 ''F2'' (IndirectRef 15 0)
   = (None,
      exampleRegisteredOptimize
        \<lparr>PageFonts := [Some {10}],
         FontObjects := [10 \<mapsto> \<lparr>ResourceNames = [''F1'', ''F2''], Prefix = ''ABCDEF'',
                                   FontName = ''Times-Roman'',
                                   FontDict = exampleFontDict ''ABCDEF+Times-Roman''\<rparr>],
         DuplicateFonts := [15 \<mapsto> exampleFontDict ''ABCDEF+Times-Roman'']\<rparr>,
      dictUpdate ''F2'' (IndirectRef 10 0) d)"
proof -
  have none: "FontObjects exampleRegisteredOptimize 15 = None"
    by (simp add: exampleRegisteredOptimize_def)
  show ?thesis
    by (simp only: body_probe [OF none exampleFont_facts(2) exampleFont_facts(4) exampleFont_facts(5)]
          examplePrefix_facts exampleRegistered_probe fst_conv snd_conv prod.case option.case)
qed

theorem subset_prefix_normalization_witness:
  "FontObjects examplePageOptimize 10 = None
   \<and> Dereference exampleCollaborators exampleFontTable (IndirectRef 10 0)
       = (Dict (exampleFontDict ''ABCDEF+Times-Roman''), None)
   \<and> Dict_Type (exampleFontDict ''ABCDEF+Times-Roman'') = Some ''Font''
   \<and> fontName exampleCollaborators exampleFontTable (exampleFontDict ''ABCDEF+Times-Roman'') 10
       = (''ABCDEF+Times-Roman'', None)
   \<and> strings_Index ''ABCDEF+Times-Roman'' CHR ''+'' = 6
   \<and> (case optimizeFontResourcesDict_body exampleCollaborators exampleFontTable
              examplePageOptimize [(''F1'', IndirectRef 10 0)] 0 ''F1'' (IndirectRef 10 0) of
         (err, oc', d') \<Rightarrow>
           err = None
           \<and> FontObjects oc' 10
               = Some \<lparr>ResourceNames = [''F1''], Prefix = ''ABCDEF'', FontName = ''Times-Roman'',
                       FontDict = exampleFontDict ''ABCDEF+Times-Roman''\<rparr>
           \<and> Fonts oc' ''Times-Roman'' = Some [10])
   \<and> strings_Index ''+Plus'' CHR ''+'' = 0
   \<and> (case optimizeFontResourcesDict_body exampleCollaborators exampleFontTable
              examplePageOptimize [(''F2'', IndirectRef 16 0)] 0 ''F2'' (IndirectRef 16 0) of
         (err, oc', d') \<Rightarrow>
           err = None
           \<and> FontObjects oc' 16
               = Some \<lparr>ResourceNames = [''F2''], Prefix = [], FontName = ''+Plus'',
                       FontDict = exampleFontDict ''+Plus''\<rparr>
           \<and> Fonts oc' ''+Plus'' = Some [16])
   \<and> FontObjects exampleRegisteredOptimize 15 = None
   \<and> fst (fst (handleDuplicateFontObject exampleCollaborators exampleFontTable
                  exampleRegisteredOptimize (exampleFontDict ''ABCDEF+Times-Roman'')
                  ''Times-Roman'' ''F2'' 15 0)) = Some 10
   \<and> (case optimizeFontResourcesDict_body exampleCollaborators exampleFontTable
              exampleRegisteredOptimize [(''F2'', IndirectRef 15 0)] 0 ''F2'' (IndirectRef 15 0) of
         (err, oc', d') \<Rightarrow>
           err = None
           \<and> FontObjects oc' 15 = None
           \<and> FontObjects oc' 10
               = Some \<lparr>ResourceNames = [''F1'', ''F2''], Prefix = ''ABCDEF'',
                       FontName = ''Times-Roman'',
                       FontDict = exampleFontDict ''ABCDEF+Times-Roman''\<rparr>
           \<and> Fonts oc' ''Times-Roman'' = Some [10])"
proof -
  have none: "FontObjects examplePageOptimize 10 = None" "FontObjects examplePageOptimize 16 = None"
    "FontObjects exampleRegisteredOptimize 15 = None"
    by (simp_all add: examplePageOptimize_def exampleOptimize_def exampleRegisteredOptimize_def)
  have probe: "handleDuplicateFontObject exampleCollaborators exampleFontTable examplePageOptimize
                 fd key r n 0 = ((None, None), examplePageOptimize)" for fd key r n
    by (simp add: handleDuplicateFontObject_def examplePageOptimize_def exampleOptimize_def)
  have b1: "optimizeFontResourcesDict_body exampleCollaborators exampleFontTable
              examplePageOptimize [(''F1'', IndirectRef 10 0)] 0 ''F1'' (IndirectRef 10 0)
            = (case registerFont examplePageOptimize (exampleFontDict ''ABCDEF+Times-Roman'')
                      ''ABCDEF'' ''Times-Roman'' ''F1'' 10 0 of
                 (err, oc2) \<Rightarrow> (err, oc2, [(''F1'', IndirectRef 10 0)]))"
    by (simp only: body_probe [OF none(1) exampleFont_facts(1) exampleFont_facts(4) exampleFont_facts(5)]
          examplePrefix_facts probe fst_conv snd_conv prod.case option.case)
  have b2: "optimizeFontResourcesDict_body exampleCollaborators exampleFontTable
              examplePageOptimize [(''F2'', IndirectRef 16 0)] 0 ''F2'' (IndirectRef 16 0)
            = (case registerFont examplePageOptimize (exampleFontDict ''+Plus'')
                      [] ''+Plus'' ''F2'' 16 0 of
                 (err, oc2) \<Rightarrow> (err, oc2, [(''F2'', IndirectRef 16 0)]))"
    by (simp only: body_probe [OF none(2) exampleFont_facts(3) exampleFont_facts(4) exampleFont_facts(5)]
          examplePrefix_facts probe fst_conv snd_conv prod.case option.case)
  have concrete12:
    "(case optimizeFontResourcesDict_body exampleCollaborators exampleFontTable
              examplePageOptimize [(''F1'', IndirectRef 10 0)] 0 ''F1'' (IndirectRef 10 0) of
         (err, oc', d') \<Rightarrow>
           err = None
           \<and> FontObjects oc' 10
               = Some \<lparr>ResourceNames = [''F1''], Prefix = ''ABCDEF'', FontName = ''Times-Roman'',
                       FontDict = exampleFontDict ''ABCDEF+Times-Roman''\<rparr>
           \<and> Fonts oc' ''Times-Roman'' = Some [10])
     \<and> (case optimizeFontResourcesDict_body exampleCollaborators exampleFontTable
              examplePageOptimize [(''F2'', IndirectRef 16 0)] 0 ''F2'' (IndirectRef 16 0) of
         (err, oc', d') \<Rightarrow>
           err = None
           \<and> FontObjects oc' 16
               = Some \<lparr>ResourceNames = [''F2''], Prefix = [], FontName = ''+Plus'',
                       FontDict = exampleFontDict ''+Plus''\<rparr>
           \<and> Fonts oc' ''+Plus'' = Some [16])"
    unfolding b1 b2
    by (simp add: registerFont_def markPageFont_def pageInRange_def
          examplePageOptimize_def exampleOptimize_def Let_def)
  have concrete3:
    "fst (fst (handleDuplicateFontObject exampleCollaborators exampleFontTable
                  exampleRegisteredOptimize (exampleFontDict ''ABCDEF+Times-Roman'')
                  ''Times-Roman'' ''F2'' 15 0)) = Some 10
     \<and> (case optimizeFontResourcesDict_body exampleCollaborators exampleFontTable
              exampleRegisteredOptimize [(''F2'', IndirectRef 15 0)] 0 ''F2'' (IndirectRef 15 0) of
         (err, oc', d') \<Rightarrow>
           err = None
           \<and> FontObjects oc' 15 = None
           \<and> FontObjects oc' 10
               = Some \<lparr>ResourceNames = [''F1'', ''F2''], Prefix = ''ABCDEF'',
                       FontName = ''Times-Roman'',
                       FontDict = exampleFontDict ''ABCDEF+Times-Roman''\<rparr>
           \<and> Fonts oc' ''Times-Roman'' = Some [10])"
    unfolding exampleRegistered_body exampleRegistered_probe
    by (simp add: exampleRegisteredOptimize_def)
  have concrete: ?thesis
    using concrete12 concrete3 none exampleFont_facts examplePrefix_facts
    by simp
  from subset_prefix_normalization
         [OF none(1) exampleFont_facts(1) exampleFont_facts(4) exampleFont_facts(5),
          of "[(''F1'', IndirectRef 10 0)]" 0 "''F1''"]
       subset_prefix_normalization
         [OF none(2) exampleFont_facts(3) exampleFont_facts(4) exampleFont_facts(5),
          of "[(''F2'', IndirectRef 16 0)]" 0 "''F2''"]
       subset_prefix_normalization
         [OF none(3) exampleFont_facts(2) exampleFont_facts(4) exampleFont_facts(5),
          of "[(''F2'', IndirectRef 15 0)]" 0 "''F2''"]
       concrete
  show ?thesis
    by blast
qed

text \<open>
  The claim as stated fails for a font that the probe finds to be a duplicate. The font 17,
  named \<open>GHIJKL+Times-Roman\<close> with \<open>+\<close> at index 6, is probed after the font 10 has been
  registered, with a comparison that leaves \<open>BaseFont\<close> out: the entry is rewritten to the font
  10, no font object is made for the font 17, and the only font object there is has the
  prefix \<open>ABCDEF\<close>. The same holds for the font 15 under plain equality of the dicts. And a
  prefix need not have 6 letters: the font 18, named \<open>AB+X\<close>, is registered with the prefix
  \<open>AB\<close>.
\<close>

theorem subset_prefix_duplicate_counterexample:
  "strings_Index ''GHIJKL+Times-Roman'' CHR ''+'' = 6
   \<and> optimizeFontResourcesDict_body examplePrefixBlindCollaborators examplePrefixTable
        examplePageOptimize [(''F1'', IndirectRef 10 0), (''F3'', IndirectRef 17 0)] 0
        ''F1'' (IndirectRef 10 0)
      = (None, exampleRegisteredOptimize, [(''F1'', IndirectRef 10 0), (''F3'', IndirectRef 17 0)])
   \<and> FontObjects exampleRegisteredOptimize 17 = None
   \<and> Dereference examplePrefixBlindCollaborators examplePrefixTable (IndirectRef 17 0)
       = (Dict (exampleFontDict ''GHIJKL+Times-Roman''), None)
   \<and> Dict_Type (exampleFontDict ''GHIJKL+Times-Roman'') = Some ''Font''
   \<and> fontName examplePrefixBlindCollaborators examplePrefixTable
        (exampleFontDict ''GHIJKL+Times-Roman'') 17 = (''GHIJKL+Times-Roman'', None)
   \<and> (case optimizeFontResourcesDict_body examplePrefixBlindCollaborators examplePrefixTable
              exampleRegisteredOptimize [(''F1'', IndirectRef 10 0), (''F3'', IndirectRef 17 0)] 0
              ''F3'' (IndirectRef 17 0) of
         (err, oc', d') \<Rightarrow>
           err = None
           \<and> d' = [(''F1'', IndirectRef 10 0), (''F3'', IndirectRef 10 0)]
           \<and> FontObjects oc' 17 = None
           \<and> FontObjects oc'
               = [10 \<mapsto> \<lparr>ResourceNames = [''F1'', ''F3''], Prefix = ''ABCDEF'',
                           FontName = ''Times-Roman'',
                           FontDict = exampleFontDict ''ABCDEF+Times-Roman''\<rparr>])
   \<and> strings_Index ''ABCDEF+Times-Roman'' CHR ''+'' = 6
   \<and> (case optimizeFontResourcesDict_body exampleCollaborators exampleFontTable
              exampleRegisteredOptimize [(''F1'', IndirectRef 10 0), (''F2'', IndirectRef 15 0)] 0
              ''F2'' (IndirectRef 15 0) of
         (err, oc', d') \<Rightarrow>
           err = None
           \<and> d' = [(''F1'', IndirectRef 10 0), (''F2'', IndirectRef 10 0)]
           \<and> FontObjects oc' 15 = None)
   \<and> strings_Index ''AB+X'' CHR ''+'' = 2
   \<and> (case optimizeFontResourcesDict_body exampleCollaborators examplePrefixTable
              examplePageOptimize [(''F4'', IndirectRef 18 0)] 0 ''F4'' (IndirectRef 18 0) of
         (err, oc', d') \<Rightarrow>
           err = None
           \<and> FontObjects oc' 18
               = Some \<lparr>ResourceNames = [''F4''], Prefix = ''AB'', FontName = ''X'',
                       FontDict = exampleFontDict ''AB+X''\<rparr>)"
  by (simp add: optimizeFontResourcesDict_body_def handleDuplicateFontObject_def
        registerFont_def markPageFont_def pageInRange_def subsetPrefix_def fontName_def
        Dict_Type_def Dict_Subtype_def NameEntry_def AddResourceName_def
        examplePrefixBlindCollaborators_def exampleCollaborators_def examplePrefixTable_def
        exampleFontTable_def exampleXRefTable_def exampleEntry_def exampleFontDict_def
        exampleRegisteredOptimize_def examplePageOptimize_def exampleOptimize_def Let_def)

















end
